theory Spec2Isabelle
  imports Main
begin

section \<open>Shared helpers: Python's \<open>str\<close> of an integer\<close>

text \<open>
  \<open>str(n)\<close> and the \<open>{n}\<close> of an f-string print an integer in decimal, with a
  leading minus sign when it is negative.
\<close>

definition digit_char :: "nat \<Rightarrow> char" where
  "digit_char d = ''0123456789'' ! d"

fun digits :: "nat \<Rightarrow> string" where
  "digits n = (if n < 10 then [digit_char n] else digits (n div 10) @ [digit_char (n mod 10)])"

declare digits.simps [simp del]

definition str_int :: "int \<Rightarrow> string" where
  "str_int i = (if i < 0 then CHR ''-'' # digits (nat (- i)) else digits (nat i))"

section \<open>The employee roster (\<open>assignment1.py\<close>)\<close>

text \<open>
  \<open>Employee.dict\<close> maps an id to a dictionary with the four keys \<open>Name\<close>, \<open>Age\<close>,
  \<open>Department\<close> and \<open>Salary\<close>. The salary is a Python float read from the console;
  \<open>add_employee\<close> only stores it, so its type is left open.
\<close>

record 's employee =
  Name :: string
  Age :: int
  Department :: string
  Salary :: 's

type_synonym 's roster = "int \<rightharpoonup> 's employee"

text \<open>
  \<open>add_employee\<close> mutates \<open>self.dict\<close> and prints one line; the model returns the new
  mapping together with the printed line. The parameter \<open>id\<close> is written \<open>emp_id\<close>,
  since \<open>id\<close> is HOL's identity function.
\<close>

definition add_employee ::
  "'s roster \<Rightarrow> int \<Rightarrow> string \<Rightarrow> int \<Rightarrow> string \<Rightarrow> 's \<Rightarrow> 's roster \<times> string" where
  "add_employee dict emp_id name age department salary =
     (if emp_id \<notin> dom dict
      then (dict(emp_id \<mapsto> \<lparr>Name = name, Age = age, Department = department, Salary = salary\<rparr>),
            ''Employee '' @ str_int emp_id @ '' - '' @ name @ '' added successfully'')
      else (dict, ''Employee with ID '' @ str_int emp_id @ '' already exists.''))"

section \<open>The food rescue store (\<open>main_sqlite.py\<close>): data\<close>

text \<open>
  A value in a pandas frame, in a tuple bound to an SQL statement and in a stored row is a
  \<open>cell\<close>: missing (\<open>NaN\<close>, \<open>NaT\<close>, \<open>None\<close>, SQL \<open>NULL\<close>), a number or a text. Numbers
  are integers: the ids and quantities of the schema. A float column that pandas builds
  only to hold \<open>NaN\<close> beside integers is read as those integers (how such a number prints
  is for \<open>astype_str\<close> to say); other floating-point values are not modelled.
\<close>

datatype cell = Null | Num int | Text string

type_synonym row = "cell list"

text \<open>A \<open>DataFrame\<close>: the header and the rows, each row one cell per column.\<close>

record dataframe =
  columns :: "string list"
  rows :: "row list"

text \<open>
  What \<open>pd.read_csv\<close> does on a file: it raises, or it returns a frame. The directory
  \<open>ROOT / 'data'\<close> is missing (\<open>None\<close>) or lists its files by name.
\<close>

datatype csv_file = Unreadable | Csv dataframe

type_synonym data_dir = "(string \<times> csv_file) list option"

text \<open>
  What pandas does to a value is a parameter of the model: the library is not part of the
  repository, and its behaviour on these calls differs between its versions.
  \<^item> \<open>to_datetime\<close> gets the whole column beside the cell, since pandas infers one format
    for a column; \<open>None\<close> is \<open>NaT\<close> under \<open>errors='coerce'\<close>.
  \<^item> \<open>parse_number\<close> is what \<open>pd.to_numeric\<close> makes of a text; \<open>None\<close> is \<open>NaN\<close>.
  \<^item> \<open>astype_str\<close> is \<open>.astype(str)\<close> on one cell of a column. It gets the column too: a
    number prints as \<open>5550101\<close> in an integer column and as \<open>5550101.0\<close> in the float column
    that a missing value makes of it, and a missing value becomes the text \<open>nan\<close> in
    pandas 2 and stays missing in pandas 3.
  \<^item> \<open>str_strip\<close> is what \<open>.str.strip()\<close> makes of a text: the text without the white
    space at its two ends, for what the library counts as white space.
  A timestamp is kept as year, month and day, all that \<open>'%Y-%m-%d'\<close> prints.
\<close>

type_synonym timestamp = "nat \<times> nat \<times> nat"

record pandas =
  to_datetime :: "cell list \<Rightarrow> cell \<Rightarrow> timestamp option"
  parse_number :: "string \<Rightarrow> int option"
  astype_str :: "cell list \<Rightarrow> cell \<Rightarrow> cell"
  str_strip :: "string \<Rightarrow> string"

datatype error = ParserError | OperationalError | ProgrammingError | IntegrityError

text \<open>The five tables, and the store: table name to rows, absent when the table does not exist.\<close>

datatype tname = Providers | Receivers | Food_listings | Claims | Audit_log

type_synonym db = "tname \<rightharpoonup> row list"

text \<open>
  The file \<open>food_rescue.db\<close>: \<open>db_file\<close> is \<open>None\<close> while \<open>DB_PATH.exists()\<close> is false, and
  holds the committed tables otherwise. \<open>unclosed\<close> counts the connections that
  \<open>get_db_connection\<close> has opened and on which \<open>close()\<close> has not been called.
\<close>

record store =
  db_file :: "db option"
  unclosed :: nat

text \<open>
  The clock as the process reads it, already printed with \<open>'%Y-%m-%d %H:%M:%S'\<close>:
  \<open>local_now\<close> is \<open>datetime.now()\<close>, the wall clock of the local time zone, and \<open>utc_now\<close> is
  the same instant in UTC.
\<close>

record clock =
  local_now :: string
  utc_now :: string

section \<open>The pandas operations the loader uses\<close>

definition pad :: "nat \<Rightarrow> string \<Rightarrow> string" where
  "pad k s = replicate (k - length s) CHR ''0'' @ s"

definition strftime :: "timestamp \<Rightarrow> string" where
  "strftime ts = (case ts of (y, m, d) \<Rightarrow>
     pad 4 (digits y) @ ''-'' @ pad 2 (digits m) @ ''-'' @ pad 2 (digits d))"

definition to_numeric :: "pandas \<Rightarrow> cell \<Rightarrow> int option" where
  "to_numeric lib c = (case c of Null \<Rightarrow> None | Num n \<Rightarrow> Some n | Text s \<Rightarrow> parse_number lib s)"

text \<open>
  \<open>.str.strip()\<close> on one cell: a text is stripped, and anything else, a missing value
  included, comes out missing.
\<close>

definition str_strip_cell :: "pandas \<Rightarrow> cell \<Rightarrow> cell" where
  "str_strip_cell lib c = (case c of Text v \<Rightarrow> Text (str_strip lib v) | _ \<Rightarrow> Null)"

text \<open>\<open>row[c]\<close> under a header, and \<open>df[c] = ...\<close> with the new value computed per row.\<close>

definition col_val :: "string list \<Rightarrow> string \<Rightarrow> row \<Rightarrow> cell" where
  "col_val cols c r = (case map_of (zip cols r) c of Some v \<Rightarrow> v | None \<Rightarrow> Null)"

definition set_cell :: "string list \<Rightarrow> string \<Rightarrow> cell \<Rightarrow> row \<Rightarrow> row" where
  "set_cell cols c v r = map (\<lambda>(k, x). if k = c then v else x) (zip cols r)"

definition assign :: "string \<Rightarrow> (row \<Rightarrow> cell) \<Rightarrow> dataframe \<Rightarrow> dataframe" where
  "assign c f df = df\<lparr>rows := map (\<lambda>r. set_cell (columns df) c (f r) r) (rows df)\<rparr>"

text \<open>Every row of a frame has one cell per column.\<close>

definition well_shaped :: "dataframe \<Rightarrow> bool" where
  "well_shaped df = list_all (\<lambda>r. length r = length (columns df)) (rows df)"

text \<open>
  Lines 117 to 120: the column is parsed, the rows left with \<open>NaT\<close> are dropped
  (\<open>dropna\<close>), and the dates are printed as \<open>'%Y-%m-%d'\<close>.
\<close>

definition expiry_of :: "pandas \<Rightarrow> dataframe \<Rightarrow> row \<Rightarrow> timestamp option" where
  "expiry_of lib df r =
     to_datetime lib (map (col_val (columns df) ''expiry_date'') (rows df))
       (col_val (columns df) ''expiry_date'' r)"

definition clean_expiry :: "pandas \<Rightarrow> dataframe \<Rightarrow> dataframe" where
  "clean_expiry lib df =
     (if ''expiry_date'' \<in> set (columns df)
      then assign ''expiry_date''
             (\<lambda>r. case expiry_of lib df r of None \<Rightarrow> Null | Some ts \<Rightarrow> Text (strftime ts))
             (df\<lparr>rows := filter (\<lambda>r. expiry_of lib df r \<noteq> None) (rows df)\<rparr>)
      else df)"

text \<open>Lines 123 to 125: \<open>to_numeric\<close>, then \<open>None\<close> where the number is negative.\<close>

definition clean_quantity :: "pandas \<Rightarrow> dataframe \<Rightarrow> dataframe" where
  "clean_quantity lib df =
     (if ''quantity'' \<in> set (columns df)
      then let df1 = assign ''quantity''
                       (\<lambda>r. case to_numeric lib (col_val (columns df) ''quantity'' r) of
                               None \<Rightarrow> Null | Some n \<Rightarrow> Num n) df
           in assign ''quantity''
                (\<lambda>r. case col_val (columns df1) ''quantity'' r of
                        Num n \<Rightarrow> if n < 0 then Null else Num n | c \<Rightarrow> c) df1
      else df)"

text \<open>
  Lines 128 and 129: \<open>df['contact'].astype(str).str.strip()\<close>, on the contact of each row
  of the frame as it stands there.
\<close>

definition trimmed_contact :: "pandas \<Rightarrow> dataframe \<Rightarrow> row \<Rightarrow> cell" where
  "trimmed_contact lib df r =
     str_strip_cell lib
       (astype_str lib (map (col_val (columns df) ''contact'') (rows df))
          (col_val (columns df) ''contact'' r))"

definition clean_contact :: "pandas \<Rightarrow> dataframe \<Rightarrow> dataframe" where
  "clean_contact lib df =
     (if ''contact'' \<in> set (columns df) then assign ''contact'' (trimmed_contact lib df) df else df)"

text \<open>\<open>drop_duplicates(subset=[c], keep='first')\<close>, with the keys seen so far.\<close>

fun drop_duplicates :: "(row \<Rightarrow> cell) \<Rightarrow> cell list \<Rightarrow> row list \<Rightarrow> row list" where
  "drop_duplicates key seen [] = []"
| "drop_duplicates key seen (r # rs) =
     (if key r \<in> set seen then drop_duplicates key seen rs
      else r # drop_duplicates key (key r # seen) rs)"

definition dedup_contact :: "tname \<Rightarrow> dataframe \<Rightarrow> dataframe" where
  "dedup_contact t df =
     (if t \<in> set [Providers, Receivers] \<and> ''contact'' \<in> set (columns df)
      then df\<lparr>rows := drop_duplicates (col_val (columns df) ''contact'') [] (rows df)\<rparr>
      else df)"

text \<open>Lines 114 to 133: the cleaning of one frame, for the table it is loaded into.\<close>

definition clean :: "pandas \<Rightarrow> tname \<Rightarrow> dataframe \<Rightarrow> dataframe" where
  "clean lib t df = dedup_contact t (clean_contact lib (clean_quantity lib (clean_expiry lib df)))"

text \<open>The rows that lines 117 to 119 keep: all of them when there is no expiry column.\<close>

definition kept_rows :: "pandas \<Rightarrow> dataframe \<Rightarrow> row list" where
  "kept_rows lib df =
     (if ''expiry_date'' \<in> set (columns df)
      then filter (\<lambda>r. expiry_of lib df r \<noteq> None) (rows df) else rows df)"

text \<open>
  The cleaning read cell by cell: what lines 117 to 129 leave in column \<open>c\<close> of a row \<open>r\<close>
  of the frame \<open>df\<close> that they keep. The contact column that \<open>.astype(str)\<close> sees is the one
  of the kept rows.
\<close>

definition clean_cell :: "pandas \<Rightarrow> dataframe \<Rightarrow> string \<Rightarrow> row \<Rightarrow> cell" where
  "clean_cell lib df c r =
     (if c = ''expiry_date'' \<and> c \<in> set (columns df)
      then (case expiry_of lib df r of None \<Rightarrow> Null | Some ts \<Rightarrow> Text (strftime ts))
      else if c = ''quantity'' \<and> c \<in> set (columns df)
      then (case to_numeric lib (col_val (columns df) c r) of
              None \<Rightarrow> Null | Some n \<Rightarrow> if n < 0 then Null else Num n)
      else if c = ''contact'' \<and> c \<in> set (columns df)
      then str_strip_cell lib
             (astype_str lib (map (col_val (columns df) c) (kept_rows lib df))
                (col_val (columns df) c r))
      else col_val (columns df) c r)"

definition df_empty :: "dataframe \<Rightarrow> bool" where
  "df_empty df = (rows df = [] \<or> columns df = [])"

section \<open>The SQLite store\<close>

text \<open>
  The schema is the one of the \<open>CREATE TABLE\<close> statements (lines 45 to 101 and 181 to
  237): the columns in order, the first one the \<open>INTEGER PRIMARY KEY\<close>, the \<open>NOT NULL\<close>
  columns, the \<open>DEFAULT\<close> of \<open>audit_log.user\<close> and the \<open>CHECK\<close> on \<open>claims.status\<close>. Foreign
  keys are declared but SQLite does not enforce them unless asked to, and the code never
  asks. Column names are compared as written, and a value is stored as it is bound: the
  case-insensitive names and the type affinities of SQLite are not modelled.
\<close>

fun table_name :: "tname \<Rightarrow> string" where
  "table_name Providers = ''providers''"
| "table_name Receivers = ''receivers''"
| "table_name Food_listings = ''food_listings''"
| "table_name Claims = ''claims''"
| "table_name Audit_log = ''audit_log''"

fun schema :: "tname \<Rightarrow> string list" where
  "schema Providers = [''provider_id'', ''name'', ''type'', ''address'', ''city'', ''contact'']"
| "schema Receivers = [''receiver_id'', ''name'', ''type'', ''city'', ''contact'']"
| "schema Food_listings = [''food_id'', ''food_name'', ''quantity'', ''expiry_date'',
     ''provider_id'', ''provider_type'', ''location'', ''food_type'', ''meal_type'']"
| "schema Claims = [''claim_id'', ''food_id'', ''receiver_id'', ''status'', ''timestamp'']"
| "schema Audit_log = [''id'', ''operation'', ''user'', ''details'', ''ts_utc'']"

fun not_null :: "tname \<Rightarrow> string list" where
  "not_null Providers = [''name'']"
| "not_null Audit_log = [''operation'', ''ts_utc'']"
| "not_null t = []"

definition default_val :: "tname \<Rightarrow> string \<Rightarrow> cell" where
  "default_val t c = (if t = Audit_log \<and> c = ''user'' then Text ''streamlit'' else Null)"

definition violates_not_null :: "tname \<Rightarrow> row \<Rightarrow> bool" where
  "violates_not_null t r = list_ex (\<lambda>c. col_val (schema t) c r = Null) (not_null t)"

definition violates_check :: "tname \<Rightarrow> row \<Rightarrow> bool" where
  "violates_check t r =
     (t = Claims \<and>
      (case col_val (schema t) ''status'' r of
         Null \<Rightarrow> False
       | Num n \<Rightarrow> True
       | Text v \<Rightarrow> v \<notin> set [''Pending'', ''Completed'', ''Cancelled'']))"

text \<open>
  The keys in use, and the key SQLite gives a row inserted with a \<open>NULL\<close> key: one more
  than the largest in use, 1 in an empty table.
\<close>

definition pk_values :: "row list \<Rightarrow> int list" where
  "pk_values rs = concat (map (\<lambda>r. case r of Num n # vs \<Rightarrow> [n] | _ \<Rightarrow> []) rs)"

definition next_rowid :: "row list \<Rightarrow> int" where
  "next_rowid rs = (case pk_values rs of [] \<Rightarrow> 1 | n # ns \<Rightarrow> fold max ns n + 1)"

definition stored_row :: "tname \<Rightarrow> string list \<Rightarrow> row \<Rightarrow> row" where
  "stored_row t cols vals =
     map (\<lambda>c. case map_of (zip cols vals) c of Some v \<Rightarrow> v | None \<Rightarrow> default_val t c) (schema t)"

definition append_checked :: "tname \<Rightarrow> row \<Rightarrow> row list \<Rightarrow> db \<Rightarrow> error + db" where
  "append_checked t r rs d =
     (if violates_not_null t r \<or> violates_check t r then Inl IntegrityError
      else Inr (d(t \<mapsto> rs @ [r])))"

text \<open>
  \<open>INSERT INTO t (cols) VALUES (?, ...)\<close> with the tuple \<open>vals\<close> bound: the errors SQLite
  raises, or the table with the new row at its end.
\<close>

definition sql_insert :: "tname \<Rightarrow> string list \<Rightarrow> row \<Rightarrow> db \<Rightarrow> error + db" where
  "sql_insert t cols vals d =
     (case d t of
        None \<Rightarrow> Inl OperationalError
      | Some rs \<Rightarrow>
          if \<not> list_all (\<lambda>c. c \<in> set (schema t)) cols then Inl OperationalError
          else if length vals \<noteq> length cols then Inl ProgrammingError
          else (case stored_row t cols vals of
                  [] \<Rightarrow> Inl OperationalError
                | Text v # vs \<Rightarrow> Inl IntegrityError
                | Null # vs \<Rightarrow> append_checked t (Num (next_rowid rs) # vs) rs d
                | Num n # vs \<Rightarrow>
                    if n \<in> set (pk_values rs) then Inl IntegrityError
                    else append_checked t (Num n # vs) rs d))"

text \<open>The loop of lines 143 and 144, and a multi-row \<open>VALUES\<close> list: it stops at the first error.\<close>

fun insert_rows :: "tname \<Rightarrow> string list \<Rightarrow> row list \<Rightarrow> db \<Rightarrow> error + db" where
  "insert_rows t cols [] d = Inr d"
| "insert_rows t cols (r # rs) d =
     (case sql_insert t cols r d of Inl e \<Rightarrow> Inl e | Inr d' \<Rightarrow> insert_rows t cols rs d')"

text \<open>
  How a stored row \<open>st\<close> relates to the tuple \<open>vals\<close> it was inserted from: \<open>stored_as\<close> is
  the relation the \<open>INSERT\<close> establishes, the key generated where it was \<open>NULL\<close>.
  \<open>keeps_fields\<close> reads it column by column against an input row \<open>r\<close>: outside the columns
  listed in \<open>changed\<close>, each column of the schema holds what \<open>r\<close> has under its header
  (\<open>NULL\<close> where the header lacks the column), but for a missing key.
\<close>

definition stored_as :: "tname \<Rightarrow> string list \<Rightarrow> row \<Rightarrow> row \<Rightarrow> bool" where
  "stored_as t cols vals st =
     (case st of
        Num k # vs \<Rightarrow> vs = tl (stored_row t cols vals) \<and> length vals = length cols \<and>
                      hd (stored_row t cols vals) \<in> set [Null, Num k]
      | _ \<Rightarrow> False)"

definition keeps_fields :: "tname \<Rightarrow> string list \<Rightarrow> string list \<Rightarrow> row \<Rightarrow> row \<Rightarrow> bool" where
  "keeps_fields t changed cols r st =
     list_all (\<lambda>c. c \<in> set changed \<or> col_val (schema t) c st = col_val cols c r \<or>
                    (c = hd (schema t) \<and> col_val cols c r = Null))
       (schema t)"

text \<open>\<open>UPDATE t SET cols = vals WHERE key = k\<close> and \<open>DELETE FROM t WHERE key = k\<close>.\<close>

definition has_key :: "int \<Rightarrow> row \<Rightarrow> bool" where
  "has_key k r = (case r of Num n # vs \<Rightarrow> n = k | _ \<Rightarrow> False)"

definition updated_row :: "tname \<Rightarrow> string list \<Rightarrow> row \<Rightarrow> row \<Rightarrow> row" where
  "updated_row t cols vals r =
     map (\<lambda>(c, v). case map_of (zip cols vals) c of Some v' \<Rightarrow> v' | None \<Rightarrow> v) (zip (schema t) r)"

datatype statement =
  Insert tname "string list" row
| Update tname "string list" row int
| Delete tname int

fun run_statement :: "statement \<Rightarrow> db \<Rightarrow> error + (nat \<times> db)" where
  "run_statement (Insert t cols vals) d =
     (case sql_insert t cols vals d of Inl e \<Rightarrow> Inl e | Inr d' \<Rightarrow> Inr (1, d'))"
| "run_statement (Update t cols vals k) d =
     (case d t of
        None \<Rightarrow> Inl OperationalError
      | Some rs \<Rightarrow>
          if \<not> list_all (\<lambda>c. c \<in> set (schema t)) cols then Inl OperationalError
          else if length vals \<noteq> length cols then Inl ProgrammingError
          else if list_ex (\<lambda>r. has_key k r \<and>
                    (violates_not_null t (updated_row t cols vals r) \<or>
                     violates_check t (updated_row t cols vals r))) rs
          then Inl IntegrityError
          else Inr (length (filter (has_key k) rs),
                    d(t \<mapsto> map (\<lambda>r. if has_key k r then updated_row t cols vals r else r) rs)))"
| "run_statement (Delete t k) d =
     (case d t of
        None \<Rightarrow> Inl OperationalError
      | Some rs \<Rightarrow> Inr (length (filter (has_key k) rs), d(t \<mapsto> filter (\<lambda>r. \<not> has_key k r) rs)))"

section \<open>Connections and transactions\<close>

text \<open>
  \<open>sqlite3.connect\<close> creates the file when it is not there. Python's \<open>sqlite3\<close> opens a
  transaction before the first \<open>INSERT\<close>, \<open>UPDATE\<close> or \<open>DELETE\<close> of a connection, and what
  the connection wrote reaches the file at \<open>conn.commit()\<close>; \<open>DROP TABLE\<close> and
  \<open>CREATE TABLE\<close>, executed before any of these, run outside a transaction and reach the file
  at once. A connection that goes away without \<open>commit()\<close> loses its transaction: the rows
  it wrote were never visible to another connection, and never will be. So a function
  works on its own copy of the tables, and the store takes the copy at \<open>commit\<close>.

  A connection takes the write lock of the file when an \<open>INSERT\<close> of its own runs, and keeps
  it until it commits or is closed. While it holds the lock, a statement of another
  connection that writes waits out its timeout and raises \<open>OperationalError\<close>,
  \<open>database is locked\<close>.
\<close>

definition current_db :: "store \<Rightarrow> db" where
  "current_db s = (case db_file s of None \<Rightarrow> Map.empty | Some d \<Rightarrow> d)"

definition get_db_connection :: "store \<Rightarrow> store" where
  "get_db_connection s = s\<lparr>db_file := Some (current_db s), unclosed := Suc (unclosed s)\<rparr>"

definition commit :: "db \<Rightarrow> store \<Rightarrow> store" where
  "commit d s = s\<lparr>db_file := Some d\<rparr>"

definition close_conn :: "store \<Rightarrow> store" where
  "close_conn s = s\<lparr>unclosed := unclosed s - 1\<rparr>"

definition drop_table_if_exists :: "tname \<Rightarrow> db \<Rightarrow> db" where
  "drop_table_if_exists t d = d(t := None)"

text \<open>
  \<open>CREATE TABLE\<close> raises when the table exists; the loader executes it only after
  \<open>DROP TABLE IF EXISTS\<close> of the same table, where it makes the empty table.
\<close>

definition create_table :: "tname \<Rightarrow> db \<Rightarrow> db" where
  "create_table t d = d(t \<mapsto> [])"

definition create_table_if_not_exists :: "tname \<Rightarrow> db \<Rightarrow> db" where
  "create_table_if_not_exists t d = (case d t of None \<Rightarrow> d(t \<mapsto> []) | Some rs \<Rightarrow> d)"

section \<open>The loader \<open>import_csv_data\<close>\<close>

definition is_csv :: "string \<Rightarrow> bool" where
  "is_csv n = (4 \<le> length n \<and> drop (length n - 4) n = ''.csv'')"

definition csv_files :: "(string \<times> csv_file) list \<Rightarrow> string list" where
  "csv_files files = filter is_csv (map fst files)"

definition import_order :: "tname list" where
  "import_order = [Providers, Receivers, Food_listings, Claims]"

text \<open>
  One round of the loop of line 106, lines 107 to 154: a missing file is skipped, a file
  that cannot be read raises, and a frame is cleaned and inserted row by row. The
  \<open>st.write\<close>, \<open>st.warning\<close> and \<open>st.success\<close> messages are presentation and are left out.
\<close>

definition import_table :: "pandas \<Rightarrow> (string \<times> csv_file) list \<Rightarrow> tname \<Rightarrow> db \<Rightarrow> error + db" where
  "import_table lib files t d =
     (case map_of files (table_name t @ ''_data.csv'') of
        None \<Rightarrow> Inr d
      | Some Unreadable \<Rightarrow> Inl ParserError
      | Some (Csv df0) \<Rightarrow>
          (let df = clean lib t df0
           in if \<not> df_empty df then insert_rows t (columns df) (rows df) d else Inr d))"

text \<open>The loop: the \<open>except\<close> branch returns at the first round that raises.\<close>

fun import_tables :: "pandas \<Rightarrow> (string \<times> csv_file) list \<Rightarrow> tname list \<Rightarrow> db \<Rightarrow> error + db" where
  "import_tables lib files [] d = Inr d"
| "import_tables lib files (t # ts) d =
     (case import_table lib files t d of Inl e \<Rightarrow> Inl e | Inr d' \<Rightarrow> import_tables lib files ts d')"

definition drop_tables :: "db \<Rightarrow> db" where
  "drop_tables d = fold drop_table_if_exists [Claims, Food_listings, Receivers, Providers, Audit_log] d"

definition create_tables :: "db \<Rightarrow> db" where
  "create_tables d = fold create_table [Providers, Receivers, Food_listings, Claims, Audit_log] d"

text \<open>
  \<open>import_csv_data\<close> returns its boolean; the store is the second component. The \<open>except\<close>
  branch (lines 150 to 152) returns \<open>False\<close> with neither \<open>commit()\<close> nor \<open>close()\<close>: the
  rows inserted so far stay in the transaction of the connection and never reach the file,
  and the connection stays counted in \<open>unclosed\<close>. The connection object outlives the call:
  the interpreter frees it only when its cyclic garbage collector next runs, and until then
  it keeps its transaction.
\<close>

definition import_csv_data :: "pandas \<Rightarrow> data_dir \<Rightarrow> store \<Rightarrow> bool \<times> store" where
  "import_csv_data lib dir s =
     (case dir of
        None \<Rightarrow> (False, s)
      | Some files \<Rightarrow>
          if csv_files files = [] then (False, s)
          else (let s1 = get_db_connection s;
                    d = create_tables (drop_tables (current_db s1));
                    s2 = commit d s1
                in case import_tables lib files import_order d of
                     Inl e \<Rightarrow> (False, s2)
                   | Inr d' \<Rightarrow> (True, close_conn (commit d' s2))))"

text \<open>
  Whether the connection that a failed load leaves behind holds the write lock: it does
  once one of its \<open>INSERT\<close> statements has run, be it one that stored its row or one that
  SQLite stopped on a constraint (\<open>IntegrityError\<close>). A statement that names an unknown
  column does not compile, and one whose tuple has the wrong length is not started
  (\<open>OperationalError\<close>, \<open>ProgrammingError\<close>): neither takes the lock. The three functions
  follow the loop of lines 143 and 144, one round of the loop of line 106, and that loop.
\<close>

fun insert_rows_lock :: "tname \<Rightarrow> string list \<Rightarrow> row list \<Rightarrow> db \<Rightarrow> bool" where
  "insert_rows_lock t cols [] d = False"
| "insert_rows_lock t cols (r # rs) d =
     (case sql_insert t cols r d of
        Inl e \<Rightarrow> e = IntegrityError
      | Inr d' \<Rightarrow> True)"

definition import_table_lock :: "pandas \<Rightarrow> (string \<times> csv_file) list \<Rightarrow> tname \<Rightarrow> db \<Rightarrow> bool" where
  "import_table_lock lib files t d =
     (case map_of files (table_name t @ ''_data.csv'') of
        None \<Rightarrow> False
      | Some Unreadable \<Rightarrow> False
      | Some (Csv df0) \<Rightarrow>
          (let df = clean lib t df0
           in if \<not> df_empty df then insert_rows_lock t (columns df) (rows df) d else False))"

fun import_tables_lock :: "pandas \<Rightarrow> (string \<times> csv_file) list \<Rightarrow> tname list \<Rightarrow> db \<Rightarrow> bool" where
  "import_tables_lock lib files [] d = False"
| "import_tables_lock lib files (t # ts) d =
     (import_table_lock lib files t d \<or>
      (case import_table lib files t d of
         Inl e \<Rightarrow> False
       | Inr d' \<Rightarrow> import_tables_lock lib files ts d'))"

text \<open>
  The lock after \<open>import_csv_data\<close> has returned \<open>False\<close> from its \<open>except\<close> branch: the loop
  started from the five empty tables of lines 38 to 101.
\<close>

definition loader_holds_lock :: "pandas \<Rightarrow> (string \<times> csv_file) list \<Rightarrow> bool" where
  "loader_holds_lock lib files =
     import_tables_lock lib files import_order (create_tables (drop_tables Map.empty))"

section \<open>The bootstrap \<open>init_database\<close>\<close>

definition sample_providers :: "row list" where
  "sample_providers =
     [[Num 1, Text ''Restaurant A'', Text ''Restaurant'', Text ''New York'', Text ''+1-555-0101''],
      [Num 2, Text ''Cafe B'', Text ''Cafe'', Text ''Los Angeles'', Text ''+1-555-0102''],
      [Num 3, Text ''Grocery C'', Text ''Grocery'', Text ''Chicago'', Text ''+1-555-0103''],
      [Num 4, Text ''Bakery D'', Text ''Bakery'', Text ''Houston'', Text ''+1-555-0104''],
      [Num 5, Text ''Hotel E'', Text ''Hotel'', Text ''Phoenix'', Text ''+1-555-0105'']]"

definition sample_receivers :: "row list" where
  "sample_receivers =
     [[Num 1, Text ''Food Bank A'', Text ''Food Bank'', Text ''New York'', Text ''+1-555-0201''],
      [Num 2, Text ''Shelter B'', Text ''Shelter'', Text ''Los Angeles'', Text ''+1-555-0202''],
      [Num 3, Text ''Community C'', Text ''Community'', Text ''Chicago'', Text ''+1-555-0203''],
      [Num 4, Text ''Church D'', Text ''Church'', Text ''Houston'', Text ''+1-555-0204''],
      [Num 5, Text ''School E'', Text ''School'', Text ''Phoenix'', Text ''+1-555-0205'']]"

definition sample_food_listings :: "row list" where
  "sample_food_listings =
     [[Num 1, Text ''Bread'', Num 50, Text ''2025-01-15'', Num 1, Text ''Restaurant'',
       Text ''Kitchen A'', Text ''Bread'', Text ''Breakfast''],
      [Num 2, Text ''Rice'', Num 100, Text ''2025-02-01'', Num 2, Text ''Cafe'',
       Text ''Storage B'', Text ''Grain'', Text ''Lunch''],
      [Num 3, Text ''Vegetables'', Num 75, Text ''2025-01-20'', Num 3, Text ''Grocery'',
       Text ''Warehouse C'', Text ''Vegetables'', Text ''Dinner''],
      [Num 4, Text ''Fruits'', Num 60, Text ''2025-01-25'', Num 4, Text ''Bakery'',
       Text ''Bakery D'', Text ''Fruits'', Text ''Snack''],
      [Num 5, Text ''Milk'', Num 30, Text ''2025-01-18'', Num 5, Text ''Hotel'',
       Text ''Kitchen E'', Text ''Dairy'', Text ''Breakfast''],
      [Num 6, Text ''Cheese'', Num 25, Text ''2025-01-30'', Num 1, Text ''Restaurant'',
       Text ''Kitchen A'', Text ''Dairy'', Text ''Lunch''],
      [Num 7, Text ''Pasta'', Num 80, Text ''2025-02-05'', Num 2, Text ''Cafe'',
       Text ''Storage B'', Text ''Grain'', Text ''Dinner''],
      [Num 8, Text ''Meat'', Num 40, Text ''2025-01-22'', Num 3, Text ''Grocery'',
       Text ''Warehouse C'', Text ''Protein'', Text ''Dinner'']]"

definition sample_claims :: "row list" where
  "sample_claims =
     [[Num 1, Num 1, Num 1, Text ''Completed'', Text ''2025-01-10 10:00:00''],
      [Num 2, Num 2, Num 2, Text ''Pending'', Text ''2025-01-11 14:30:00''],
      [Num 3, Num 3, Num 3, Text ''Completed'', Text ''2025-01-12 09:15:00''],
      [Num 4, Num 4, Num 4, Text ''Cancelled'', Text ''2025-01-13 16:45:00''],
      [Num 5, Num 5, Num 5, Text ''Pending'', Text ''2025-01-14 11:20:00'']]"

text \<open>
  The four \<open>INSERT\<close> statements of lines 240 to 277, each with its column list; the one
  for \<open>providers\<close> names no \<open>address\<close>.
\<close>

definition insert_sample_data :: "db \<Rightarrow> error + db" where
  "insert_sample_data d =
     (case insert_rows Providers [''provider_id'', ''name'', ''type'', ''city'', ''contact'']
             sample_providers d of
        Inl e \<Rightarrow> Inl e
      | Inr d1 \<Rightarrow>
     (case insert_rows Receivers (schema Receivers) sample_receivers d1 of
        Inl e \<Rightarrow> Inl e
      | Inr d2 \<Rightarrow>
     (case insert_rows Food_listings (schema Food_listings) sample_food_listings d2 of
        Inl e \<Rightarrow> Inl e
      | Inr d3 \<Rightarrow> insert_rows Claims (schema Claims) sample_claims d3)))"

text \<open>
  Lines 176 to 281. Nothing catches an exception here: it leaves \<open>init_database\<close>, which
  the model shows as \<open>Some e\<close> in the first component. \<open>locked\<close> says that another
  connection holds the write lock of the file: then the first statement that writes
  raises, which is the \<open>INSERT\<close> of line 240 when the five tables exist
  (\<open>CREATE TABLE IF NOT EXISTS\<close> of a table that exists writes nothing), and nothing is
  changed in the file.
\<close>

definition sample_fallback :: "bool \<Rightarrow> store \<Rightarrow> error option \<times> store" where
  "sample_fallback locked s =
     (let s1 = get_db_connection s
      in if locked then (Some OperationalError, s1)
         else (let d = fold create_table_if_not_exists
                         [Providers, Receivers, Food_listings, Claims, Audit_log] (current_db s1);
                   s2 = commit d s1
               in case insert_sample_data d of
                    Inl e \<Rightarrow> (Some e, s2)
                  | Inr d' \<Rightarrow> (None, close_conn (commit d' s2))))"

text \<open>
  \<open>init_database\<close> works only while there is no store file, so no connection can hold a
  lock when it starts. The one connection that can hold it at line 177 is the one that a
  failed \<open>import_csv_data\<close> has just left unclosed: the fallback runs right after the
  loader returns, before anything has freed that connection.
\<close>

definition init_database :: "pandas \<Rightarrow> data_dir \<Rightarrow> store \<Rightarrow> error option \<times> store" where
  "init_database lib dir s =
     (if db_file s = None
      then (case dir of
              None \<Rightarrow> sample_fallback False s
            | Some files \<Rightarrow>
                if csv_files files \<noteq> []
                then (case import_csv_data lib dir s of
                        (True, s') \<Rightarrow> (None, s')
                      | (False, s') \<Rightarrow> sample_fallback (loader_holds_lock lib files) s')
                else sample_fallback False s)
      else (None, s))"

section \<open>Queries, the audit log and the forms\<close>

text \<open>
  \<open>run_query\<close> and \<open>execute_query\<close> (lines 283 to 307): the connection is closed in a
  \<open>finally\<close> block. What a \<open>SELECT\<close> computes is a parameter of \<open>run_query\<close>.
\<close>

definition run_query :: "(db \<Rightarrow> error + 'a) \<Rightarrow> store \<Rightarrow> (error + 'a) \<times> store" where
  "run_query q s =
     (let s1 = get_db_connection s
      in case q (current_db s1) of
           Inl e \<Rightarrow> (Inl e, close_conn s1)
         | Inr df \<Rightarrow> (Inr df, close_conn s1))"

definition execute_query :: "statement \<Rightarrow> store \<Rightarrow> (error + nat) \<times> store" where
  "execute_query q s =
     (let s1 = get_db_connection s
      in case run_statement q (current_db s1) of
           Inl e \<Rightarrow> (Inl e, close_conn s1)
         | Inr (rowcount, d') \<Rightarrow> (Inr rowcount, close_conn (commit d' s1)))"

definition log_audit :: "string \<Rightarrow> string \<Rightarrow> clock \<Rightarrow> store \<Rightarrow> error option \<times> store" where
  "log_audit operation details clk s =
     (let now = local_now clk
      in case execute_query
                (Insert Audit_log [''operation'', ''user'', ''details'', ''ts_utc'']
                   [Text operation, Text ''streamlit'', Text details, Text now]) s of
           (Inl e, s') \<Rightarrow> (Some e, s')
         | (Inr n, s') \<Rightarrow> (None, s'))"

text \<open>
  What a submitted form does (lines 416 to 457, 477 to 496, 530 to 581), with the values
  of its widgets: the statement it executes, then the audit entry it logs.
\<close>

datatype action =
  Create_listing int string int string "int option" string string string string
| Update_listing int string int string int string string string string
| Delete_listing int
| Create_claim int "int option" "int option" string
| Update_claim int string
| Create_provider int string string string string string
| Update_provider int string string string string string
| Delete_provider int
| Create_receiver int string string string string
| Update_receiver int string string string string
| Delete_receiver int

definition opt_num :: "int option \<Rightarrow> cell" where
  "opt_num v = (case v of None \<Rightarrow> Null | Some n \<Rightarrow> Num n)"

fun statement_of :: "clock \<Rightarrow> action \<Rightarrow> statement" where
  "statement_of clk (Create_listing food_id food_name quantity expiry_date provider_id
       provider_type location food_type meal_type) =
     Insert Food_listings (schema Food_listings)
       [Num food_id, Text food_name, Num quantity, Text expiry_date, opt_num provider_id,
        Text provider_type, Text location, Text food_type, Text meal_type]"
| "statement_of clk (Update_listing picked_id food_name quantity expiry_date provider_id
       provider_type location food_type meal_type) =
     Update Food_listings (tl (schema Food_listings))
       [Text food_name, Num quantity, Text expiry_date, Num provider_id,
        Text provider_type, Text location, Text food_type, Text meal_type] picked_id"
| "statement_of clk (Delete_listing del_id) = Delete Food_listings del_id"
| "statement_of clk (Create_claim claim_id food_id receiver_id status) =
     Insert Claims (schema Claims)
       [Num claim_id, opt_num food_id, opt_num receiver_id, Text status, Text (local_now clk)]"
| "statement_of clk (Update_claim claim_id new_status) =
     Update Claims [''status''] [Text new_status] claim_id"
| "statement_of clk (Create_provider provider_id name type' address city contact) =
     Insert Providers (schema Providers)
       [Num provider_id, Text name, Text type', Text address, Text city, Text contact]"
| "statement_of clk (Update_provider provider_id name type' address city contact) =
     Update Providers (tl (schema Providers))
       [Text name, Text type', Text address, Text city, Text contact] provider_id"
| "statement_of clk (Delete_provider provider_id) = Delete Providers provider_id"
| "statement_of clk (Create_receiver receiver_id name type' city contact) =
     Insert Receivers (schema Receivers)
       [Num receiver_id, Text name, Text type', Text city, Text contact]"
| "statement_of clk (Update_receiver receiver_id name type' city contact) =
     Update Receivers (tl (schema Receivers))
       [Text name, Text type', Text city, Text contact] receiver_id"
| "statement_of clk (Delete_receiver receiver_id) = Delete Receivers receiver_id"

fun audit_of :: "action \<Rightarrow> string \<times> string" where
  "audit_of (Create_listing food_id food_name quantity expiry_date provider_id
       provider_type location food_type meal_type) =
     (''create_listing'', ''food_id='' @ str_int food_id)"
| "audit_of (Update_listing picked_id food_name quantity expiry_date provider_id
       provider_type location food_type meal_type) =
     (''update_listing'', ''food_id='' @ str_int picked_id)"
| "audit_of (Delete_listing del_id) = (''delete_listing'', ''food_id='' @ str_int del_id)"
| "audit_of (Create_claim claim_id food_id receiver_id status) =
     (''create_claim'', ''claim_id='' @ str_int claim_id)"
| "audit_of (Update_claim claim_id new_status) =
     (''update_claim'', ''claim_id='' @ str_int claim_id @ '', status='' @ new_status)"
| "audit_of (Create_provider provider_id name type' address city contact) =
     (''create_provider'', ''provider_id='' @ str_int provider_id)"
| "audit_of (Update_provider provider_id name type' address city contact) =
     (''update_provider'', ''provider_id='' @ str_int provider_id)"
| "audit_of (Delete_provider provider_id) = (''delete_provider'', ''provider_id='' @ str_int provider_id)"
| "audit_of (Create_receiver receiver_id name type' city contact) =
     (''create_receiver'', ''receiver_id='' @ str_int receiver_id)"
| "audit_of (Update_receiver receiver_id name type' city contact) =
     (''update_receiver'', ''receiver_id='' @ str_int receiver_id)"
| "audit_of (Delete_receiver receiver_id) = (''delete_receiver'', ''receiver_id='' @ str_int receiver_id)"

definition submit :: "clock \<Rightarrow> action \<Rightarrow> store \<Rightarrow> error option \<times> store" where
  "submit clk a s =
     (case execute_query (statement_of clk a) s of
        (Inl e, s') \<Rightarrow> (Some e, s')
      | (Inr n, s') \<Rightarrow> log_audit (fst (audit_of a)) (snd (audit_of a)) clk s')"

text \<open>The rows of the audit log, none while the table does not exist.\<close>

definition audit_rows :: "store \<Rightarrow> row list" where
  "audit_rows s = (case current_db s Audit_log of None \<Rightarrow> [] | Some rs \<Rightarrow> rs)"

section \<open>Example inputs\<close>

text \<open>
  Python's \<open>str.strip()\<close> for a text whose characters all lie below code point 256, a
  \<open>char\<close> standing for the character of that code point: there the white space is the nine
  ASCII control characters and the space, U+0085 and U+00A0.
\<close>

definition latin1_space :: "char \<Rightarrow> bool" where
  "latin1_space c = (c \<in> set [CHR 0x09, CHR 0x0A, CHR 0x0B, CHR 0x0C, CHR 0x0D,
                               CHR 0x1C, CHR 0x1D, CHR 0x1E, CHR 0x1F, CHR 0x20,
                               CHR 0x85, CHR 0xA0])"

definition latin1_strip :: "string \<Rightarrow> string" where
  "latin1_strip v = rev (dropWhile latin1_space (rev (dropWhile latin1_space v)))"

text \<open>
  A library for the examples, as pandas 2 behaves on them.
  \<^item> \<open>to_datetime\<close> knows two dates in two spellings and reads a column in the spelling of
    its first value, as the format inference of pandas does: in a column that begins
    \<open>01/15/2025\<close> the value \<open>01/20/2025\<close> is a date and \<open>2025-01-20\<close> is not.
  \<^item> \<open>parse_number\<close> knows two numerals; \<open>many\<close> is not a number.
  \<^item> \<open>astype_str\<close> leaves a text as it is, prints a number with \<open>.0\<close> when the column has a
    missing value (numbers below \<open>10^16\<close>), and makes \<open>nan\<close> of a missing value.
  \<^item> \<open>str_strip\<close> is \<open>latin1_strip\<close>.
\<close>

definition demo_dates :: "string \<Rightarrow> (string \<times> timestamp) list" where
  "demo_dates first =
     (if first \<in> set [''01/15/2025'', ''01/20/2025'']
      then [(''01/15/2025'', (2025, 1, 15)), (''01/20/2025'', (2025, 1, 20))]
      else if first \<in> set [''2025-01-15'', ''2025-01-20'']
      then [(''2025-01-15'', (2025, 1, 15)), (''2025-01-20'', (2025, 1, 20))]
      else [])"

definition demo_pandas :: pandas where
  "demo_pandas =
     \<lparr>to_datetime = (\<lambda>col c. case (col, c) of
          (Text first # rest, Text v) \<Rightarrow> map_of (demo_dates first) v
        | _ \<Rightarrow> None),
      parse_number = (\<lambda>v. if v = ''-5'' then Some (- 5) else if v = ''12'' then Some 12 else None),
      astype_str = (\<lambda>col c. case c of
          Null \<Rightarrow> Text ''nan''
        | Num n \<Rightarrow> Text (if Null \<in> set col then str_int n @ ''.0'' else str_int n)
        | Text v \<Rightarrow> Text v),
      str_strip = latin1_strip\<rparr>"

text \<open>Three providers, the second with the contact of the first once trimmed.\<close>

definition demo_providers :: dataframe where
  "demo_providers =
     \<lparr>columns = schema Providers,
      rows = [[Num 1, Text ''A'', Text ''Cafe'', Text ''1 Main St'', Text ''Pune'', Text ''X''],
              [Num 2, Text ''B'', Text ''Cafe'', Text ''2 Main St'', Text ''Pune'', Text '' X ''],
              [Num 3, Text ''C'', Text ''Hotel'', Text ''3 Main St'', Text ''Goa'', Text ''Y'']]\<rparr>"

text \<open>
  Three listings, their dates spelled month/day/year and their quantities read as texts:
  one whose quantity is not a number, one with a negative quantity, and one with a
  negative quantity and no date.
\<close>

definition demo_listings :: dataframe where
  "demo_listings =
     \<lparr>columns = schema Food_listings,
      rows = [[Num 1, Text ''Bread'', Text ''many'', Text ''01/15/2025'', Num 1, Text ''Cafe'',
               Text ''Pune'', Text ''Bakery'', Text ''Breakfast''],
              [Num 2, Text ''Rice'', Text ''-5'', Text ''01/20/2025'', Num 1, Text ''Cafe'',
               Text ''Pune'', Text ''Grain'', Text ''Lunch''],
              [Num 3, Text ''Milk'', Text ''-5'', Text ''not-a-date'', Num 3, Text ''Hotel'',
               Text ''Goa'', Text ''Dairy'', Text ''Dinner'']]\<rparr>"

definition demo_files :: "(string \<times> csv_file) list" where
  "demo_files = [(''providers_data.csv'', Csv demo_providers),
                 (''food_listings_data.csv'', Csv demo_listings)]"

text \<open>The same providers beside a receivers file that \<open>read_csv\<close> cannot read.\<close>

definition broken_files :: "(string \<times> csv_file) list" where
  "broken_files = [(''providers_data.csv'', Csv demo_providers),
                   (''receivers_data.csv'', Unreadable)]"

definition no_store :: store where
  "no_store = \<lparr>db_file = None, unclosed = 0\<rparr>"

text \<open>A clock on a host five and a half hours ahead of UTC.\<close>

definition demo_clock :: clock where
  "demo_clock = \<lparr>local_now = ''2025-01-10 15:30:00'', utc_now = ''2025-01-10 10:00:00''\<rparr>"

text \<open>A store reached by a load and one submitted form: it has one audit row.\<close>

definition audited_store :: store where
  "audited_store =
     snd (submit demo_clock (Delete_listing 3) (snd (import_csv_data demo_pandas (Some demo_files) no_store)))"

section \<open>Properties of the employee roster\<close>

text \<open>
  C10. Calling \<open>add_employee\<close> with an id that is already a key of the mapping returns the
  mapping as it was: no field of the existing employee is overwritten, no entry is added or
  removed, and the only effect is the printed line saying that the id already exists.
\<close>

theorem add_employee_existing_unchanged:
  assumes "emp_id \<in> dom dict"
  shows "add_employee dict emp_id name age department salary =
           (dict, ''Employee with ID '' @ str_int emp_id @ '' already exists.'')"
  using assms by (simp add: add_employee_def)

theorem add_employee_existing_unchanged_witness:
  "(7::int) \<in> dom [7 \<mapsto> \<lparr>Name = ''Asha'', Age = 31, Department = ''HR'', Salary = (52000::int)\<rparr>]
   \<and> add_employee [7 \<mapsto> \<lparr>Name = ''Asha'', Age = 31, Department = ''HR'', Salary = (52000::int)\<rparr>]
        7 ''Ravi'' 45 ''Sales'' 10
      = ([7 \<mapsto> \<lparr>Name = ''Asha'', Age = 31, Department = ''HR'', Salary = 52000\<rparr>],
         ''Employee with ID 7 already exists.'')"
proof -
  have h: "(7::int) \<in> dom [7 \<mapsto> \<lparr>Name = ''Asha'', Age = 31, Department = ''HR'', Salary = (52000::int)\<rparr>]"
    by simp
  have s: "str_int 7 = ''7''"
    by (simp add: str_int_def digits.simps digit_char_def)
  show ?thesis
    using h add_employee_existing_unchanged [OF h, of "''Ravi''" 45 "''Sales''" 10]
    by (simp add: s)
qed

section \<open>The store: what a statement changes\<close>

lemma create_drop_fresh: "create_tables (drop_tables d) = (\<lambda>t. Some [])"
proof
  fix t show "create_tables (drop_tables d) t = Some []"
    by (cases t) (simp_all add: create_tables_def drop_tables_def create_table_def drop_table_if_exists_def)
qed

lemma append_checked_Inr:
  "append_checked t r rs d = Inr d' \<Longrightarrow> d' = d(t \<mapsto> rs @ [r])"
  by (simp add: append_checked_def split: if_splits)

lemma sql_insert_Inr:
  assumes "sql_insert t cols vals d = Inr d'"
  shows "\<exists>rs k. d t = Some rs \<and> d' = d(t \<mapsto> rs @ [Num k # tl (stored_row t cols vals)])
           \<and> (hd (stored_row t cols vals) = Null \<or> hd (stored_row t cols vals) = Num k)
           \<and> length vals = length cols \<and> list_all (\<lambda>c. c \<in> set (schema t)) cols"
  using assms
  by (auto simp: sql_insert_def split: option.splits if_splits list.splits cell.splits
           dest!: append_checked_Inr)

lemma sql_insert_other: "sql_insert t cols vals d = Inr d' \<Longrightarrow> u \<noteq> t \<Longrightarrow> d' u = d u"
  by (auto dest!: sql_insert_Inr)

lemma insert_rows_other: "insert_rows t cols batch d = Inr d' \<Longrightarrow> u \<noteq> t \<Longrightarrow> d' u = d u"
proof (induction batch arbitrary: d)
  case Nil then show ?case by simp
next
  case (Cons r batch)
  then show ?case by (auto split: sum.splits dest: sql_insert_other)
qed

lemma insert_rows_same:
  "insert_rows t cols batch d = Inr d' \<Longrightarrow> d t = Some rs \<Longrightarrow>
     \<exists>new. d' t = Some (rs @ new) \<and> list_all2 (stored_as t cols) batch new"
proof (induction batch arbitrary: d rs)
  case Nil then show ?case by simp
next
  case (Cons r batch)
  from Cons.prems(1) obtain d1 where 1: "sql_insert t cols r d = Inr d1"
    and 2: "insert_rows t cols batch d1 = Inr d'"
    by (auto split: sum.splits)
  from sql_insert_Inr[OF 1] Cons.prems(2) obtain k where
    k: "d1 t = Some (rs @ [Num k # tl (stored_row t cols r)])"
       "hd (stored_row t cols r) = Null \<or> hd (stored_row t cols r) = Num k"
       "length r = length cols"
    by auto
  from Cons.IH[OF 2 k(1)] obtain new where
    new: "d' t = Some ((rs @ [Num k # tl (stored_row t cols r)]) @ new)"
         "list_all2 (stored_as t cols) batch new" by blast
  have "stored_as t cols r (Num k # tl (stored_row t cols r))"
    using k by (auto simp: stored_as_def)
  with new show ?case by auto
qed

lemma run_statement_other:
  "run_statement q d = Inr (n, d') \<Longrightarrow>
   (case q of Insert t cols vals \<Rightarrow> t | Update t cols vals k \<Rightarrow> t | Delete t k \<Rightarrow> t) \<noteq> u \<Longrightarrow>
   d' u = d u"
  by (cases q) (auto split: sum.splits option.splits if_splits dest!: sql_insert_Inr)

lemma statement_of_table:
  "(case statement_of clk a of Insert t cols vals \<Rightarrow> t | Update t cols vals k \<Rightarrow> t | Delete t k \<Rightarrow> t)
     \<noteq> Audit_log"
  by (cases a) simp_all

section \<open>The loader: one table at a time\<close>

lemma import_table_other: "import_table lib files t d = Inr d' \<Longrightarrow> u \<noteq> t \<Longrightarrow> d' u = d u"
  by (auto simp: import_table_def Let_def split: option.splits csv_file.splits if_splits
           dest: insert_rows_other)

lemma import_tables_other:
  "import_tables lib files ts d = Inr d' \<Longrightarrow> u \<notin> set ts \<Longrightarrow> d' u = d u"
proof (induction ts arbitrary: d)
  case Nil then show ?case by simp
next
  case (Cons v ts)
  from Cons.prems(1) obtain d1 where 1: "import_table lib files v d = Inr d1"
    and 2: "import_tables lib files ts d1 = Inr d'"
    by (auto split: sum.splits)
  from Cons.prems(2) have "u \<noteq> v" "u \<notin> set ts" by auto
  from Cons.IH[OF 2 this(2)] import_table_other[OF 1 this(1)] show ?case by simp
qed

lemma import_tables_table:
  "import_tables lib files ts d = Inr d' \<Longrightarrow> distinct ts \<Longrightarrow> t \<in> set ts \<Longrightarrow>
     \<exists>d0 d1. import_table lib files t d0 = Inr d1 \<and> d0 t = d t \<and> d' t = d1 t"
proof (induction ts arbitrary: d)
  case Nil then show ?case by simp
next
  case (Cons u ts)
  from Cons.prems(1) obtain d1 where 1: "import_table lib files u d = Inr d1"
    and 2: "import_tables lib files ts d1 = Inr d'"
    by (auto split: sum.splits)
  show ?case
  proof (cases "u = t")
    case True
    have "t \<notin> set ts" using Cons.prems(2) True by simp
    have "d' t = d1 t" using 2 \<open>t \<notin> set ts\<close>
    proof (induction ts arbitrary: d1)
      case Nil then show ?case by simp
    next
      case (Cons v ts)
      then show ?case by (auto split: sum.splits dest: import_table_other)
    qed
    with 1 True show ?thesis by blast
  next
    case False
    with Cons.prems have "t \<in> set ts" "distinct ts" by auto
    from Cons.IH[OF 2 this(2) this(1)] obtain d0 d2 where
      "import_table lib files t d0 = Inr d2" "d0 t = d1 t" "d' t = d2 t" by blast
    moreover have "d1 t = d t" using import_table_other[OF 1] False by auto
    ultimately show ?thesis by (metis)
  qed
qed

lemma import_tables_append:
  "import_tables lib files (pre @ ts) d =
     (case import_tables lib files pre d of Inl e \<Rightarrow> Inl e | Inr d' \<Rightarrow> import_tables lib files ts d')"
  by (induction pre arbitrary: d) (auto split: sum.splits)

lemma import_csv_data_reached:
  assumes "csv_files files \<noteq> []"
  shows "import_csv_data lib (Some files) s =
           (case import_tables lib files import_order (\<lambda>t. Some []) of
              Inl e \<Rightarrow> (False, \<lparr>db_file = Some (\<lambda>t. Some []), unclosed = Suc (unclosed s)\<rparr>)
            | Inr d' \<Rightarrow> (True, \<lparr>db_file = Some d', unclosed = unclosed s\<rparr>))"
  using assms
  by (simp add: import_csv_data_def create_drop_fresh Let_def commit_def close_conn_def
        get_db_connection_def split: sum.splits)

section \<open>Rows, duplicates and stored rows\<close>

lemma length_set_cell: "length (set_cell cols c v r) = min (length cols) (length r)"
  by (simp add: set_cell_def)

lemma map_of_set_cell:
  "map_of (zip cols (set_cell cols c v r)) c' =
     map_option (\<lambda>x. if c' = c then v else x) (map_of (zip cols r) c')"
proof (induction cols arbitrary: r)
  case Nil
  then show ?case by (simp add: set_cell_def)
next
  case (Cons k cols)
  show ?case
  proof (cases r)
    case Nil
    then show ?thesis by (simp add: set_cell_def)
  next
    case (Cons x xs)
    with Cons.IH[of xs] show ?thesis by (simp add: set_cell_def)
  qed
qed

lemma col_val_set_cell_other:
  "c' \<noteq> c \<Longrightarrow> col_val cols c' (set_cell cols c v r) = col_val cols c' r"
  by (simp add: col_val_def map_of_set_cell split: option.splits)

lemma col_val_set_cell_same:
  assumes "c \<in> set cols" and "length r = length cols"
  shows "col_val cols c (set_cell cols c v r) = v"
proof -
  from assms obtain x where "map_of (zip cols r) c = Some x"
    by (metis map_of_zip_is_Some not_Some_eq)
  then show ?thesis by (simp add: col_val_def map_of_set_cell)
qed

lemma drop_duplicates_map:
  "drop_duplicates key seen (map g rs) = map g (drop_duplicates (\<lambda>r. key (g r)) seen rs)"
  by (induction rs arbitrary: seen) auto

lemma drop_duplicates_cong:
  "(\<And>r. r \<in> set rs \<Longrightarrow> k1 r = k2 r) \<Longrightarrow> drop_duplicates k1 seen rs = drop_duplicates k2 seen rs"
  by (induction rs arbitrary: seen) auto

lemma drop_duplicates_keys:
  "set (map k (drop_duplicates k seen rs)) = set (map k rs) - set seen"
  by (induction rs arbitrary: seen) auto

lemma drop_duplicates_distinct: "distinct (map k (drop_duplicates k seen rs))"
proof (induction rs arbitrary: seen)
  case Nil then show ?case by simp
next
  case (Cons r rs)
  have "k r \<notin> set (map k (drop_duplicates k (k r # seen) rs))"
    unfolding drop_duplicates_keys by simp
  with Cons show ?case by auto
qed

lemma drop_duplicates_first:
  "r \<in> set (drop_duplicates k seen rs) \<Longrightarrow> List.find (\<lambda>x. k x = k r) rs = Some r"
proof (induction rs arbitrary: seen)
  case Nil then show ?case by simp
next
  case (Cons r0 rs)
  show ?case
  proof (cases "k r0 \<in> set seen")
    case True
    with Cons.prems have in': "r \<in> set (drop_duplicates k seen rs)" by simp
    then have "k r \<in> set (map k (drop_duplicates k seen rs))" by simp
    then have "k r \<notin> set seen" unfolding drop_duplicates_keys by simp
    with True have "k r0 \<noteq> k r" by auto
    with Cons.IH[OF in'] show ?thesis by simp
  next
    case False
    show ?thesis
    proof (cases "r = r0")
      case True then show ?thesis by simp
    next
      case neq: False
      with False Cons.prems have in': "r \<in> set (drop_duplicates k (k r0 # seen) rs)" by simp
      then have "k r \<in> set (map k (drop_duplicates k (k r0 # seen) rs))" by simp
      then have "k r \<noteq> k r0" unfolding drop_duplicates_keys by simp
      with Cons.IH[OF in'] show ?thesis by simp
    qed
  qed
qed

lemma schema_nonempty: "\<exists>p rest. schema t = p # rest"
  by (cases t) simp_all

lemma col_val_map:
  "c \<in> set xs \<Longrightarrow> col_val xs c (map f xs) = f c"
  by (simp add: col_val_def map_of_zip_map)

lemma stored_as_fields:
  assumes st: "stored_as t cols vals st" and t: "t \<noteq> Audit_log" and c: "c \<in> set (schema t)"
  shows "col_val (schema t) c st = col_val cols c vals
           \<or> (c = hd (schema t) \<and> col_val cols c vals = Null)"
proof -
  obtain p rest where sch: "schema t = p # rest" using schema_nonempty by blast
  define f where "f = (\<lambda>c. case map_of (zip cols vals) c of Some v \<Rightarrow> v | None \<Rightarrow> default_val t c)"
  have f: "f c = col_val cols c vals" for c
    using t by (simp add: f_def col_val_def default_val_def split: option.splits)
  have S: "stored_row t cols vals = f p # map f rest"
    by (simp add: stored_row_def sch f_def)
  from st obtain k where k: "st = Num k # map f rest" "f p = Null \<or> f p = Num k"
    by (auto simp: stored_as_def S split: list.splits cell.splits)
  show ?thesis
  proof (cases "c = p")
    case True
    with k sch show ?thesis by (auto simp: col_val_def f)
  next
    case False
    with c sch have "c \<in> set rest" by simp
    then have "map_of (zip rest (map f rest)) c = Some (f c)"
      by (simp add: map_of_zip_map)
    with False k sch show ?thesis by (simp add: col_val_def f)
  qed
qed

lemma list_all2_right_member:
  "list_all2 P xs ys \<Longrightarrow> y \<in> set ys \<Longrightarrow> \<exists>x\<in>set xs. P x y"
  by (induction rule: list_all2_induct) auto

section \<open>The cleaning, cell by cell\<close>

lemma columns_clean: "columns (clean lib t df) = columns df"
  by (simp add: clean_def dedup_contact_def clean_contact_def clean_quantity_def clean_expiry_def
        assign_def Let_def)

lemma clean_expiry_rows:
  "\<exists>g. rows (clean_expiry lib df) = map g (kept_rows lib df)
     \<and> columns (clean_expiry lib df) = columns df
     \<and> (\<forall>r. length r = length (columns df) \<longrightarrow>
           length (g r) = length (columns df)
         \<and> (\<forall>c. col_val (columns df) c (g r) =
                (if c = ''expiry_date'' \<and> c \<in> set (columns df)
                 then (case expiry_of lib df r of None \<Rightarrow> Null | Some ts \<Rightarrow> Text (strftime ts))
                 else col_val (columns df) c r)))"
proof (cases "''expiry_date'' \<in> set (columns df)")
  case True
  show ?thesis
    by (rule exI[of _ "\<lambda>r. set_cell (columns df) ''expiry_date''
            (case expiry_of lib df r of None \<Rightarrow> Null | Some ts \<Rightarrow> Text (strftime ts)) r"])
       (simp add: True clean_expiry_def kept_rows_def assign_def length_set_cell
          col_val_set_cell_other col_val_set_cell_same)
next
  case False
  show ?thesis
    by (rule exI[of _ "\<lambda>r. r"]) (auto simp: False clean_expiry_def kept_rows_def)
qed

lemma clean_quantity_rows:
  "\<exists>g. rows (clean_quantity lib df) = map g (rows df)
     \<and> columns (clean_quantity lib df) = columns df
     \<and> (\<forall>r. length r = length (columns df) \<longrightarrow>
           length (g r) = length (columns df)
         \<and> (\<forall>c. col_val (columns df) c (g r) =
                (if c = ''quantity'' \<and> c \<in> set (columns df)
                 then (case to_numeric lib (col_val (columns df) c r) of
                         None \<Rightarrow> Null | Some n \<Rightarrow> if n < 0 then Null else Num n)
                 else col_val (columns df) c r)))"
proof (cases "''quantity'' \<in> set (columns df)")
  case True
  define h where "h = (\<lambda>r. set_cell (columns df) ''quantity''
       (case to_numeric lib (col_val (columns df) ''quantity'' r) of None \<Rightarrow> Null | Some n \<Rightarrow> Num n) r)"
  define g where "g = (\<lambda>r. set_cell (columns df) ''quantity''
       (case col_val (columns df) ''quantity'' (h r) of
          Num n \<Rightarrow> if n < 0 then Null else Num n | c \<Rightarrow> c) (h r))"
  have rows: "rows (clean_quantity lib df) = map g (rows df)"
    by (simp add: True clean_quantity_def assign_def Let_def g_def h_def)
  have cols: "columns (clean_quantity lib df) = columns df"
    by (simp add: clean_quantity_def assign_def Let_def)
  have "length (g r) = length (columns df)
         \<and> (\<forall>c. col_val (columns df) c (g r) =
                (if c = ''quantity'' \<and> c \<in> set (columns df)
                 then (case to_numeric lib (col_val (columns df) c r) of
                         None \<Rightarrow> Null | Some n \<Rightarrow> if n < 0 then Null else Num n)
                 else col_val (columns df) c r))"
    if len: "length r = length (columns df)" for r
  proof -
    have lh: "length (h r) = length (columns df)"
      by (simp add: h_def length_set_cell len)
    have qh: "col_val (columns df) ''quantity'' (h r) =
        (case to_numeric lib (col_val (columns df) ''quantity'' r) of None \<Rightarrow> Null | Some n \<Rightarrow> Num n)"
      by (simp add: h_def col_val_set_cell_same True len)
    have oh: "c \<noteq> ''quantity'' \<Longrightarrow> col_val (columns df) c (h r) = col_val (columns df) c r" for c
      by (simp add: h_def col_val_set_cell_other)
    have "col_val (columns df) ''quantity'' (g r) =
        (case to_numeric lib (col_val (columns df) ''quantity'' r) of
           None \<Rightarrow> Null | Some n \<Rightarrow> if n < 0 then Null else Num n)"
      by (simp add: g_def col_val_set_cell_same True lh qh split: option.splits)
    moreover have "c \<noteq> ''quantity'' \<Longrightarrow> col_val (columns df) c (g r) = col_val (columns df) c r" for c
      by (simp add: g_def col_val_set_cell_other oh)
    moreover have "length (g r) = length (columns df)"
      by (simp add: g_def length_set_cell lh)
    ultimately show ?thesis using True by auto
  qed
  with rows cols show ?thesis by blast
next
  case False
  show ?thesis
    by (rule exI[of _ "\<lambda>r. r"]) (auto simp: False clean_quantity_def)
qed

lemma clean_contact_rows:
  "\<exists>g. rows (clean_contact lib df) = map g (rows df)
     \<and> columns (clean_contact lib df) = columns df
     \<and> (\<forall>r. length r = length (columns df) \<longrightarrow>
           length (g r) = length (columns df)
         \<and> (\<forall>c. col_val (columns df) c (g r) =
                (if c = ''contact'' \<and> c \<in> set (columns df) then trimmed_contact lib df r
                 else col_val (columns df) c r)))"
proof (cases "''contact'' \<in> set (columns df)")
  case True
  show ?thesis
    by (rule exI[of _ "\<lambda>r. set_cell (columns df) ''contact'' (trimmed_contact lib df r) r"])
       (simp add: True clean_contact_def assign_def length_set_cell
          col_val_set_cell_other col_val_set_cell_same)
next
  case False
  show ?thesis
    by (rule exI[of _ "\<lambda>r. r"]) (auto simp: False clean_contact_def)
qed

lemma kept_rows_shape:
  "well_shaped df \<Longrightarrow> r \<in> set (kept_rows lib df) \<Longrightarrow> length r = length (columns df)"
  by (auto simp: kept_rows_def well_shaped_def list_all_iff split: if_splits)

lemma cleaned_rows:
  assumes shape: "well_shaped df"
  shows "\<exists>g. rows (clean_contact lib (clean_quantity lib (clean_expiry lib df))) = map g (kept_rows lib df)
     \<and> (\<forall>r\<in>set (kept_rows lib df).
           length (g r) = length (columns df)
         \<and> (\<forall>c. col_val (columns df) c (g r) = clean_cell lib df c r))"
proof -
  define df1 where "df1 = clean_expiry lib df"
  define df2 where "df2 = clean_quantity lib df1"
  from clean_expiry_rows[of lib df] obtain g1 where g1:
    "rows df1 = map g1 (kept_rows lib df)" "columns df1 = columns df"
    "\<And>r. length r = length (columns df) \<Longrightarrow> length (g1 r) = length (columns df)"
    "\<And>r c. length r = length (columns df) \<Longrightarrow> col_val (columns df) c (g1 r) =
                (if c = ''expiry_date'' \<and> c \<in> set (columns df)
                 then (case expiry_of lib df r of None \<Rightarrow> Null | Some ts \<Rightarrow> Text (strftime ts))
                 else col_val (columns df) c r)"
    unfolding df1_def by blast
  from clean_quantity_rows[of lib df1] obtain g2 where g2:
    "rows df2 = map g2 (rows df1)" "columns df2 = columns df"
    "\<And>r. length r = length (columns df) \<Longrightarrow> length (g2 r) = length (columns df)"
    "\<And>r c. length r = length (columns df) \<Longrightarrow> col_val (columns df) c (g2 r) =
                (if c = ''quantity'' \<and> c \<in> set (columns df)
                 then (case to_numeric lib (col_val (columns df) c r) of
                         None \<Rightarrow> Null | Some n \<Rightarrow> if n < 0 then Null else Num n)
                 else col_val (columns df) c r)"
    unfolding df2_def g1(2) by blast
  from clean_contact_rows[of lib df2] obtain g3 where g3:
    "rows (clean_contact lib df2) = map g3 (rows df2)"
    "\<And>r. length r = length (columns df) \<Longrightarrow> length (g3 r) = length (columns df)"
    "\<And>r c. length r = length (columns df) \<Longrightarrow> col_val (columns df) c (g3 r) =
                (if c = ''contact'' \<and> c \<in> set (columns df) then trimmed_contact lib df2 r
                 else col_val (columns df) c r)"
    unfolding g2(2) by blast
  have rows: "rows (clean_contact lib (clean_quantity lib (clean_expiry lib df)))
                = map (\<lambda>r. g3 (g2 (g1 r))) (kept_rows lib df)"
    using g1(1) g2(1) g3(1) by (simp add: df1_def df2_def)
  have ct: "col_val (columns df) ''contact'' (g2 (g1 r)) = col_val (columns df) ''contact'' r"
    if "r \<in> set (kept_rows lib df)" for r
  proof -
    have len: "length r = length (columns df)" using kept_rows_shape[OF shape that] .
    have l1: "length (g1 r) = length (columns df)" using g1(3) len by simp
    show ?thesis by (simp add: g2(4)[OF l1] g1(4)[OF len])
  qed
  have col: "map (col_val (columns df) ''contact'') (rows df2)
               = map (col_val (columns df) ''contact'') (kept_rows lib df)"
    using ct by (simp add: g2(1) g1(1))
  have "length (g3 (g2 (g1 r))) = length (columns df)
         \<and> (\<forall>c. col_val (columns df) c (g3 (g2 (g1 r))) = clean_cell lib df c r)"
    if r: "r \<in> set (kept_rows lib df)" for r
  proof -
    have len: "length r = length (columns df)" using kept_rows_shape[OF shape r] .
    have l1: "length (g1 r) = length (columns df)" using g1(3) len by simp
    have l2: "length (g2 (g1 r)) = length (columns df)" using g2(3) l1 by simp
    have tc: "trimmed_contact lib df2 (g2 (g1 r)) =
                str_strip_cell lib
                  (astype_str lib (map (col_val (columns df) ''contact'') (kept_rows lib df))
                     (col_val (columns df) ''contact'' r))"
      by (simp add: trimmed_contact_def g2(2) col ct[OF r])
    show ?thesis
      using g3(2)[OF l2]
      by (auto simp: g3(3)[OF l2] g2(4)[OF l1] g1(4)[OF len] tc clean_cell_def)
  qed
  with rows show ?thesis by blast
qed

lemma loaded_table:
  assumes ok: "fst (import_csv_data lib (Some files) s)"
    and t: "t \<in> set import_order"
    and csv: "map_of files (table_name t @ ''_data.csv'') = Some (Csv df)"
    and cols: "columns df \<noteq> []"
  shows "\<exists>T. current_db (snd (import_csv_data lib (Some files) s)) t = Some T
           \<and> list_all2 (stored_as t (columns df)) (rows (clean lib t df)) T"
proof -
  have ne: "csv_files files \<noteq> []"
    using ok by (auto simp: import_csv_data_def)
  with ok obtain d' where d': "import_tables lib files import_order (\<lambda>t. Some []) = Inr d'"
    and res: "import_csv_data lib (Some files) s = (True, \<lparr>db_file = Some d', unclosed = unclosed s\<rparr>)"
    by (auto simp: import_csv_data_reached split: sum.splits)
  have "distinct import_order" by (simp add: import_order_def)
  from import_tables_table[OF d' this t] obtain d0 d1 where
    it: "import_table lib files t d0 = Inr d1" and d0: "d0 t = Some []" and d1: "d' t = d1 t"
    by auto
  have "\<exists>T. d1 t = Some T \<and> list_all2 (stored_as t (columns df)) (rows (clean lib t df)) T"
  proof (cases "df_empty (clean lib t df)")
    case True
    with cols have "rows (clean lib t df) = []" by (simp add: df_empty_def columns_clean)
    moreover from True it csv have "d1 = d0" by (simp add: import_table_def)
    ultimately show ?thesis using d0 by simp
  next
    case False
    with it csv have "insert_rows t (columns df) (rows (clean lib t df)) d0 = Inr d1"
      by (simp add: import_table_def columns_clean)
    from insert_rows_same[OF this d0] show ?thesis by simp
  qed
  with d1 res show ?thesis by (simp add: current_db_def)
qed

lemma drop_duplicates_subset: "set (drop_duplicates k seen rs) \<subseteq> set rs"
  by (induction rs arbitrary: seen) auto

lemma list_all2_same_map:
  "list_all2 (\<lambda>x y. g y = f x) xs ys \<Longrightarrow> map g ys = map f xs"
  by (induction rule: list_all2_induct) auto

lemma loaded_rows:
  assumes ok: "fst (import_csv_data lib (Some files) s)"
    and t: "t \<in> set import_order"
    and csv: "map_of files (table_name t @ ''_data.csv'') = Some (Csv df)"
    and shape: "well_shaped df"
    and cols: "columns df \<noteq> []"
  shows "\<exists>T. current_db (snd (import_csv_data lib (Some files) s)) t = Some T
     \<and> list_all2 (\<lambda>r st. \<forall>c\<in>set (schema t).
            col_val (schema t) c st = clean_cell lib df c r
              \<or> (c = hd (schema t) \<and> clean_cell lib df c r = Null))
         (if t \<in> set [Providers, Receivers] \<and> ''contact'' \<in> set (columns df)
          then drop_duplicates (clean_cell lib df ''contact'') [] (kept_rows lib df)
          else kept_rows lib df) T"
proof -
  from cleaned_rows[OF shape, of lib] obtain g where
    rows: "rows (clean_contact lib (clean_quantity lib (clean_expiry lib df))) = map g (kept_rows lib df)"
    and cell: "\<And>r c. r \<in> set (kept_rows lib df) \<Longrightarrow> col_val (columns df) c (g r) = clean_cell lib df c r"
    by blast
  define L where "L = (if t \<in> set [Providers, Receivers] \<and> ''contact'' \<in> set (columns df)
          then drop_duplicates (clean_cell lib df ''contact'') [] (kept_rows lib df)
          else kept_rows lib df)"
  have colsC: "columns (clean_contact lib (clean_quantity lib (clean_expiry lib df))) = columns df"
    by (simp add: clean_contact_def clean_quantity_def clean_expiry_def assign_def Let_def)
  have batch: "rows (clean lib t df) = map g L"
  proof (cases "t \<in> set [Providers, Receivers] \<and> ''contact'' \<in> set (columns df)")
    case True
    have "drop_duplicates (col_val (columns df) ''contact'') [] (map g (kept_rows lib df))
            = map g (drop_duplicates (\<lambda>r. col_val (columns df) ''contact'' (g r)) [] (kept_rows lib df))"
      by (rule drop_duplicates_map)
    also have "drop_duplicates (\<lambda>r. col_val (columns df) ''contact'' (g r)) [] (kept_rows lib df)
            = drop_duplicates (clean_cell lib df ''contact'') [] (kept_rows lib df)"
      by (rule drop_duplicates_cong) (simp add: cell)
    finally show ?thesis
      using True by (simp add: clean_def dedup_contact_def colsC rows L_def)
  next
    case False
    then show ?thesis
      by (auto simp: clean_def dedup_contact_def colsC rows L_def)
  qed
  have Lsub: "set L \<subseteq> set (kept_rows lib df)"
    using drop_duplicates_subset[of "clean_cell lib df ''contact''" "[]" "kept_rows lib df"]
    by (auto simp: L_def)
  have tn: "t \<noteq> Audit_log" using t by (auto simp: import_order_def)
  from loaded_table[OF ok t csv cols] obtain T where
    T: "current_db (snd (import_csv_data lib (Some files) s)) t = Some T"
    and rel: "list_all2 (stored_as t (columns df)) (map g L) T"
    unfolding batch by blast
  from rel have "list_all2 (\<lambda>r st. stored_as t (columns df) (g r) st) L T"
    by (simp add: list_all2_map1)
  then have "list_all2 (\<lambda>r st. \<forall>c\<in>set (schema t).
            col_val (schema t) c st = clean_cell lib df c r
              \<or> (c = hd (schema t) \<and> clean_cell lib df c r = Null)) L T"
  proof (rule list.rel_mono_strong)
    fix r st assume r: "r \<in> set L" and sa: "stored_as t (columns df) (g r) st"
    from r Lsub have lr: "r \<in> set (kept_rows lib df)" by auto
    show "\<forall>c\<in>set (schema t). col_val (schema t) c st = clean_cell lib df c r
              \<or> (c = hd (schema t) \<and> clean_cell lib df c r = Null)"
      using stored_as_fields[OF sa tn] by (simp add: cell[OF lr])
  qed
  with T show ?thesis unfolding L_def by blast
qed


section \<open>What a successful load leaves in a table\<close>

text \<open>
  C1. Take a provider or receiver batch with one cell per column, a contact column and no
  expiry column, and let \<open>key r\<close> be the contact of the input row \<open>r\<close> after
  \<open>.astype(str).str.strip()\<close>. A load that succeeds leaves a table \<open>T\<close> with exactly one row
  for each distinct key of the input: the contacts stored in \<open>T\<close> are pairwise distinct and
  are the keys of the input, each row of \<open>T\<close> is the first input row bearing its key, with
  the key as its contact and its other fields as they were, and the number of rows is the
  number of distinct keys.
\<close>

theorem load_keeps_first_row_per_contact:
  assumes t: "t = Providers \<or> t = Receivers"
    and csv: "map_of files (table_name t @ ''_data.csv'') = Some (Csv df)"
    and shape: "well_shaped df"
    and contact: "''contact'' \<in> set (columns df)"
    and expiry: "''expiry_date'' \<notin> set (columns df)"
    and ok: "fst (import_csv_data lib (Some files) s)"
    and key: "key = (\<lambda>r. case astype_str lib (map (col_val (columns df) ''contact'') (rows df))
                               (col_val (columns df) ''contact'' r) of
                          Text v \<Rightarrow> Text (str_strip lib v) | _ \<Rightarrow> Null)"
  shows "\<exists>T. current_db (snd (import_csv_data lib (Some files) s)) t = Some T
     \<and> distinct (map (col_val (schema t) ''contact'') T)
     \<and> set (map (col_val (schema t) ''contact'') T) = set (map key (rows df))
     \<and> (\<forall>st\<in>set T. \<exists>r.
           List.find (\<lambda>x. key x = col_val (schema t) ''contact'' st) (rows df) = Some r
           \<and> keeps_fields t [''contact''] (columns df) r st)
     \<and> length T = card (set (map key (rows df)))"
proof -
  have tin: "t \<in> set import_order" using t by (auto simp: import_order_def)
  have cols: "columns df \<noteq> []" using contact by auto
  have kept: "kept_rows lib df = rows df" using expiry by (simp add: kept_rows_def)
  have ck: "clean_cell lib df ''contact'' = key"
    using contact by (auto simp: clean_cell_def kept key str_strip_cell_def fun_eq_iff)
  define L where "L = drop_duplicates key [] (rows df)"
  define k where "k = col_val (schema t) ''contact''"
  from loaded_rows[OF ok tin csv shape cols] t contact obtain T where
    T: "current_db (snd (import_csv_data lib (Some files) s)) t = Some T"
    and rel: "list_all2 (\<lambda>r st. \<forall>c\<in>set (schema t).
            col_val (schema t) c st = clean_cell lib df c r
              \<or> (c = hd (schema t) \<and> clean_cell lib df c r = Null)) L T"
    unfolding kept L_def ck by auto
  have fields: "k st = key r \<and> keeps_fields t [''contact''] (columns df) r st"
    if "\<forall>c\<in>set (schema t). col_val (schema t) c st = clean_cell lib df c r
              \<or> (c = hd (schema t) \<and> clean_cell lib df c r = Null)" for r st
  proof -
    have "k st = clean_cell lib df ''contact'' r"
      using that t by (auto simp: k_def)
    moreover have "keeps_fields t [''contact''] (columns df) r st"
      using that t expiry by (auto simp: keeps_fields_def clean_cell_def)
    ultimately show ?thesis by (simp add: ck)
  qed
  from rel have rel': "list_all2 (\<lambda>r st. k st = key r
                         \<and> keeps_fields t [''contact''] (columns df) r st) L T"
    by (rule list_all2_mono) (use fields in blast)
  then have "list_all2 (\<lambda>r st. k st = key r) L T"
    by (rule list_all2_mono) simp
  then have keys: "map k T = map key L"
    by (rule list_all2_same_map)
  have d: "distinct (map k T)"
    unfolding keys L_def by (rule drop_duplicates_distinct)
  have s: "set (map k T) = set (map key (rows df))"
    unfolding keys L_def drop_duplicates_keys by simp
  have n: "length T = card (set (map key (rows df)))"
    using distinct_card[OF d] s by simp
  have f: "\<exists>r. List.find (\<lambda>x. key x = k st) (rows df) = Some r
           \<and> keeps_fields t [''contact''] (columns df) r st" if "st \<in> set T" for st
  proof -
    from list_all2_right_member[OF rel' that] obtain r where r: "r \<in> set L"
      "k st = key r" "keeps_fields t [''contact''] (columns df) r st" by blast
    from drop_duplicates_first[OF r(1)[unfolded L_def]] r(2,3) show ?thesis by auto
  qed
  from T d s f n show ?thesis unfolding k_def by blast
qed

text \<open>
  At the three example providers the keys are \<open>X\<close>, \<open>X\<close> and \<open>Y\<close>, the second read from
  \<open>' X '\<close>: two distinct keys, and the rows with ids 1 and 3 are loaded.
\<close>

theorem load_keeps_first_row_per_contact_witness:
  "map_of demo_files (table_name Providers @ ''_data.csv'') = Some (Csv demo_providers)
   \<and> well_shaped demo_providers
   \<and> ''contact'' \<in> set (columns demo_providers)
   \<and> ''expiry_date'' \<notin> set (columns demo_providers)
   \<and> fst (import_csv_data demo_pandas (Some demo_files) no_store)
   \<and> map (\<lambda>r. case astype_str demo_pandas
                       (map (col_val (columns demo_providers) ''contact'') (rows demo_providers))
                       (col_val (columns demo_providers) ''contact'' r) of
                  Text v \<Rightarrow> Text (str_strip demo_pandas v) | _ \<Rightarrow> Null) (rows demo_providers)
        = [Text ''X'', Text ''X'', Text ''Y'']
   \<and> (\<exists>T. current_db (snd (import_csv_data demo_pandas (Some demo_files) no_store)) Providers = Some T
        \<and> distinct (map (col_val (schema Providers) ''contact'') T)
        \<and> length T = card (set [Text ''X'', Text ''X'', Text ''Y'']))
   \<and> current_db (snd (import_csv_data demo_pandas (Some demo_files) no_store)) Providers
        = Some [[Num 1, Text ''A'', Text ''Cafe'', Text ''1 Main St'', Text ''Pune'', Text ''X''],
                [Num 3, Text ''C'', Text ''Hotel'', Text ''3 Main St'', Text ''Goa'', Text ''Y'']]"
proof -
  define key where "key = (\<lambda>r. case astype_str demo_pandas
                       (map (col_val (columns demo_providers) ''contact'') (rows demo_providers))
                       (col_val (columns demo_providers) ''contact'' r) of
                  Text v \<Rightarrow> Text (str_strip demo_pandas v) | _ \<Rightarrow> Null)"
  have 1: "Providers = Providers \<or> Providers = Receivers"
    by simp
  have 2: "map_of demo_files (table_name Providers @ ''_data.csv'') = Some (Csv demo_providers)"
    by (simp add: demo_files_def)
  have 3: "well_shaped demo_providers"
    by code_simp
  have 4: "''contact'' \<in> set (columns demo_providers)"
    by (simp add: demo_providers_def)
  have 5: "''expiry_date'' \<notin> set (columns demo_providers)"
    by (simp add: demo_providers_def)
  have 6: "fst (import_csv_data demo_pandas (Some demo_files) no_store)"
    by code_simp
  have 7: "current_db (snd (import_csv_data demo_pandas (Some demo_files) no_store)) Providers
        = Some [[Num 1, Text ''A'', Text ''Cafe'', Text ''1 Main St'', Text ''Pune'', Text ''X''],
                [Num 3, Text ''C'', Text ''Hotel'', Text ''3 Main St'', Text ''Goa'', Text ''Y'']]"
    by code_simp
  have 8: "map (\<lambda>r. case astype_str demo_pandas
                       (map (col_val (columns demo_providers) ''contact'') (rows demo_providers))
                       (col_val (columns demo_providers) ''contact'' r) of
                  Text v \<Rightarrow> Text (str_strip demo_pandas v) | _ \<Rightarrow> Null) (rows demo_providers)
        = [Text ''X'', Text ''X'', Text ''Y'']"
    by code_simp
  from load_keeps_first_row_per_contact [OF 1 2 3 4 5 6 key_def] 8
  have "\<exists>T. current_db (snd (import_csv_data demo_pandas (Some demo_files) no_store)) Providers = Some T
        \<and> distinct (map (col_val (schema Providers) ''contact'') T)
        \<and> length T = card (set [Text ''X'', Text ''X'', Text ''Y''])"
    unfolding key_def by auto
  with 2 3 4 5 6 7 8 show ?thesis
    by blast
qed

text \<open>
  C2. For a food listing batch with an expiry column, a load that succeeds leaves a table
  whose rows are, one for one and in order, the input rows whose expiry date parses: each
  loaded row carries that parsed date, printed as \<open>'%Y-%m-%d'\<close>, and no loaded row stems
  from an input row whose date fails to parse.
\<close>

theorem load_drops_unparsable_expiry:
  assumes csv: "map_of files ''food_listings_data.csv'' = Some (Csv df)"
    and shape: "well_shaped df"
    and expiry: "''expiry_date'' \<in> set (columns df)"
    and ok: "fst (import_csv_data lib (Some files) s)"
  shows "\<exists>T. current_db (snd (import_csv_data lib (Some files) s)) Food_listings = Some T
     \<and> list_all2 (\<lambda>r st. \<exists>ts. expiry_of lib df r = Some ts
             \<and> col_val (schema Food_listings) ''expiry_date'' st = Text (strftime ts)
             \<and> keeps_fields Food_listings [''expiry_date'', ''quantity''] (columns df) r st)
         (filter (\<lambda>r. expiry_of lib df r \<noteq> None) (rows df)) T"
proof -
  have tin: "Food_listings \<in> set import_order" by (simp add: import_order_def)
  have cols: "columns df \<noteq> []" using expiry by auto
  have kept: "kept_rows lib df = filter (\<lambda>r. expiry_of lib df r \<noteq> None) (rows df)"
    using expiry by (simp add: kept_rows_def)
  from loaded_rows[OF ok tin _ shape cols, unfolded kept] csv obtain T where
    T: "current_db (snd (import_csv_data lib (Some files) s)) Food_listings = Some T"
    and rel: "list_all2 (\<lambda>r st. \<forall>c\<in>set (schema Food_listings).
            col_val (schema Food_listings) c st = clean_cell lib df c r
              \<or> (c = hd (schema Food_listings) \<and> clean_cell lib df c r = Null))
          (filter (\<lambda>r. expiry_of lib df r \<noteq> None) (rows df)) T"
    by auto
  from rel have "list_all2 (\<lambda>r st. \<exists>ts. expiry_of lib df r = Some ts
             \<and> col_val (schema Food_listings) ''expiry_date'' st = Text (strftime ts)
             \<and> keeps_fields Food_listings [''expiry_date'', ''quantity''] (columns df) r st)
         (filter (\<lambda>r. expiry_of lib df r \<noteq> None) (rows df)) T"
  proof (rule list.rel_mono_strong)
    fix r st
    assume r: "r \<in> set (filter (\<lambda>r. expiry_of lib df r \<noteq> None) (rows df))"
      and c: "\<forall>c\<in>set (schema Food_listings).
            col_val (schema Food_listings) c st = clean_cell lib df c r
              \<or> (c = hd (schema Food_listings) \<and> clean_cell lib df c r = Null)"
    from r obtain ts where ts: "expiry_of lib df r = Some ts" by auto
    from c expiry ts show "\<exists>ts. expiry_of lib df r = Some ts
             \<and> col_val (schema Food_listings) ''expiry_date'' st = Text (strftime ts)
             \<and> keeps_fields Food_listings [''expiry_date'', ''quantity''] (columns df) r st"
      by (simp add: keeps_fields_def clean_cell_def)
  qed
  with T show ?thesis by blast
qed


theorem load_drops_unparsable_expiry_witness:
  "map_of demo_files ''food_listings_data.csv'' = Some (Csv demo_listings)
   \<and> well_shaped demo_listings
   \<and> ''expiry_date'' \<in> set (columns demo_listings)
   \<and> fst (import_csv_data demo_pandas (Some demo_files) no_store)
   \<and> (\<exists>T. current_db (snd (import_csv_data demo_pandas (Some demo_files) no_store)) Food_listings = Some T
        \<and> list_all2 (\<lambda>r st. \<exists>ts. expiry_of demo_pandas demo_listings r = Some ts
               \<and> col_val (schema Food_listings) ''expiry_date'' st = Text (strftime ts)
               \<and> keeps_fields Food_listings [''expiry_date'', ''quantity''] (columns demo_listings) r st)
            (filter (\<lambda>r. expiry_of demo_pandas demo_listings r \<noteq> None) (rows demo_listings)) T)
   \<and> length (filter (\<lambda>r. expiry_of demo_pandas demo_listings r \<noteq> None) (rows demo_listings)) = 2"
proof -
  have 1: "map_of demo_files ''food_listings_data.csv'' = Some (Csv demo_listings)"
    by (simp add: demo_files_def)
  have 2: "well_shaped demo_listings"
    by code_simp
  have 3: "''expiry_date'' \<in> set (columns demo_listings)"
    by (simp add: demo_listings_def)
  have 4: "fst (import_csv_data demo_pandas (Some demo_files) no_store)"
    by code_simp
  have 5: "length (filter (\<lambda>r. expiry_of demo_pandas demo_listings r \<noteq> None) (rows demo_listings)) = 2"
    by code_simp
  from load_drops_unparsable_expiry [OF 1 2 3 4] 1 2 3 4 5 show ?thesis
    by blast
qed

text \<open>
  C3, as the code has it. For a food listing batch with one cell per column, an expiry
  and a quantity column, when the load succeeds: the loaded rows are, one for one and in
  order, the input rows whose expiry date parses; where the quantity of such a row fails
  to parse or is negative, the loaded row has no quantity; its expiry date is the parsed
  one printed as \<open>'%Y-%m-%d'\<close>, and every other field is as it was in the input.
\<close>

theorem load_nulls_bad_quantity:
  assumes csv: "map_of files ''food_listings_data.csv'' = Some (Csv df)"
    and shape: "well_shaped df"
    and expiry: "''expiry_date'' \<in> set (columns df)"
    and quantity: "''quantity'' \<in> set (columns df)"
    and ok: "fst (import_csv_data lib (Some files) s)"
  shows "\<exists>T. current_db (snd (import_csv_data lib (Some files) s)) Food_listings = Some T
     \<and> list_all2 (\<lambda>r st.
             ((case to_numeric lib (col_val (columns df) ''quantity'' r) of
                 None \<Rightarrow> True | Some n \<Rightarrow> n < 0)
              \<longrightarrow> col_val (schema Food_listings) ''quantity'' st = Null)
             \<and> (\<exists>ts. expiry_of lib df r = Some ts
                  \<and> col_val (schema Food_listings) ''expiry_date'' st = Text (strftime ts))
             \<and> keeps_fields Food_listings [''expiry_date'', ''quantity''] (columns df) r st)
         (filter (\<lambda>r. expiry_of lib df r \<noteq> None) (rows df)) T"
proof -
  have tin: "Food_listings \<in> set import_order" by (simp add: import_order_def)
  have cols: "columns df \<noteq> []" using expiry by auto
  have kept: "kept_rows lib df = filter (\<lambda>r. expiry_of lib df r \<noteq> None) (rows df)"
    using expiry by (simp add: kept_rows_def)
  from loaded_rows[OF ok tin _ shape cols, unfolded kept] csv obtain T where
    T: "current_db (snd (import_csv_data lib (Some files) s)) Food_listings = Some T"
    and rel: "list_all2 (\<lambda>r st. \<forall>c\<in>set (schema Food_listings).
            col_val (schema Food_listings) c st = clean_cell lib df c r
              \<or> (c = hd (schema Food_listings) \<and> clean_cell lib df c r = Null))
          (filter (\<lambda>r. expiry_of lib df r \<noteq> None) (rows df)) T"
    by auto
  from rel have "list_all2 (\<lambda>r st.
             ((case to_numeric lib (col_val (columns df) ''quantity'' r) of
                 None \<Rightarrow> True | Some n \<Rightarrow> n < 0)
              \<longrightarrow> col_val (schema Food_listings) ''quantity'' st = Null)
             \<and> (\<exists>ts. expiry_of lib df r = Some ts
                  \<and> col_val (schema Food_listings) ''expiry_date'' st = Text (strftime ts))
             \<and> keeps_fields Food_listings [''expiry_date'', ''quantity''] (columns df) r st)
         (filter (\<lambda>r. expiry_of lib df r \<noteq> None) (rows df)) T"
  proof (rule list.rel_mono_strong)
    fix r st
    assume r: "r \<in> set (filter (\<lambda>r. expiry_of lib df r \<noteq> None) (rows df))"
      and c: "\<forall>c\<in>set (schema Food_listings).
            col_val (schema Food_listings) c st = clean_cell lib df c r
              \<or> (c = hd (schema Food_listings) \<and> clean_cell lib df c r = Null)"
    from r obtain ts where ts: "expiry_of lib df r = Some ts" by auto
    from c expiry quantity ts show
      "((case to_numeric lib (col_val (columns df) ''quantity'' r) of
                 None \<Rightarrow> True | Some n \<Rightarrow> n < 0)
              \<longrightarrow> col_val (schema Food_listings) ''quantity'' st = Null)
             \<and> (\<exists>ts. expiry_of lib df r = Some ts
                  \<and> col_val (schema Food_listings) ''expiry_date'' st = Text (strftime ts))
             \<and> keeps_fields Food_listings [''expiry_date'', ''quantity''] (columns df) r st"
      by (auto simp: keeps_fields_def clean_cell_def split: option.splits)
  qed
  with T show ?thesis by blast
qed

theorem load_nulls_bad_quantity_witness:
  "map_of demo_files ''food_listings_data.csv'' = Some (Csv demo_listings)
   \<and> well_shaped demo_listings
   \<and> ''expiry_date'' \<in> set (columns demo_listings)
   \<and> ''quantity'' \<in> set (columns demo_listings)
   \<and> fst (import_csv_data demo_pandas (Some demo_files) no_store)
   \<and> (\<exists>T. current_db (snd (import_csv_data demo_pandas (Some demo_files) no_store)) Food_listings = Some T
        \<and> list_all2 (\<lambda>r st.
             ((case to_numeric demo_pandas (col_val (columns demo_listings) ''quantity'' r) of
                 None \<Rightarrow> True | Some n \<Rightarrow> n < 0)
              \<longrightarrow> col_val (schema Food_listings) ''quantity'' st = Null)
             \<and> (\<exists>ts. expiry_of demo_pandas demo_listings r = Some ts
                  \<and> col_val (schema Food_listings) ''expiry_date'' st = Text (strftime ts))
             \<and> keeps_fields Food_listings [''expiry_date'', ''quantity''] (columns demo_listings) r st)
            (filter (\<lambda>r. expiry_of demo_pandas demo_listings r \<noteq> None) (rows demo_listings)) T)"
proof -
  have 1: "map_of demo_files ''food_listings_data.csv'' = Some (Csv demo_listings)"
    by (simp add: demo_files_def)
  have 2: "well_shaped demo_listings"
    by code_simp
  have 3: "''expiry_date'' \<in> set (columns demo_listings)"
    by (simp add: demo_listings_def)
  have 4: "''quantity'' \<in> set (columns demo_listings)"
    by (simp add: demo_listings_def)
  have 5: "fst (import_csv_data demo_pandas (Some demo_files) no_store)"
    by code_simp
  from load_nulls_bad_quantity [OF 1 2 3 4 5] 1 2 3 4 5 show ?thesis
    by blast
qed

text \<open>
  C3 as the claim states it fails, on each of the three conditions that the amended
  statement adds. The third input row has the negative quantity \<open>-5\<close> and a date that does
  not parse, and the load drops it. The second row is kept with no quantity, but its expiry
  date, \<open>01/20/2025\<close> in the input, is stored as \<open>2025-01-20\<close>. And beside a claims file
  that cannot be read the load fails, and the table keeps none of the rows.
\<close>

theorem negative_quantity_row_dropped:
  "rows demo_listings ! 2 =
       [Num 3, Text ''Milk'', Text ''-5'', Text ''not-a-date'', Num 3, Text ''Hotel'',
        Text ''Goa'', Text ''Dairy'', Text ''Dinner'']
   \<and> rows demo_listings ! 1 =
       [Num 2, Text ''Rice'', Text ''-5'', Text ''01/20/2025'', Num 1, Text ''Cafe'',
        Text ''Pune'', Text ''Grain'', Text ''Lunch'']
   \<and> to_numeric demo_pandas (Text ''-5'') = Some (- 5)
   \<and> fst (import_csv_data demo_pandas (Some demo_files) no_store)
   \<and> current_db (snd (import_csv_data demo_pandas (Some demo_files) no_store)) Food_listings
       = Some [[Num 1, Text ''Bread'', Null, Text ''2025-01-15'', Num 1, Text ''Cafe'',
                Text ''Pune'', Text ''Bakery'', Text ''Breakfast''],
               [Num 2, Text ''Rice'', Null, Text ''2025-01-20'', Num 1, Text ''Cafe'',
                Text ''Pune'', Text ''Grain'', Text ''Lunch'']]
   \<and> fst (import_csv_data demo_pandas
             (Some ((''claims_data.csv'', Unreadable) # demo_files)) no_store) = False
   \<and> current_db (snd (import_csv_data demo_pandas
             (Some ((''claims_data.csv'', Unreadable) # demo_files)) no_store)) Food_listings
       = Some []"
  by code_simp

text \<open>
  C7. The load is idempotent on the tables: after a second run over the same directory the
  store file holds exactly what it held after the first, in the four core tables and in
  the audit log, whatever the directory and the store were.
\<close>

theorem import_csv_data_idempotent:
  "db_file (snd (import_csv_data lib dir (snd (import_csv_data lib dir s))))
     = db_file (snd (import_csv_data lib dir s))"
proof (cases dir)
  case None
  then show ?thesis by (simp add: import_csv_data_def)
next
  case (Some files)
  show ?thesis
  proof (cases "csv_files files = []")
    case True
    with Some show ?thesis by (simp add: import_csv_data_def)
  next
    case False
    with Some show ?thesis
      by (simp add: import_csv_data_reached split: sum.splits)
  qed
qed

text \<open>
  C5, as the code has it. Here \<open>\<lambda>t. Some []\<close> is the store as lines 38 to 101 leave it, five
  empty tables. When the step of one entity \<open>t\<close> raises, after the steps of the entities
  \<open>pre\<close> before it went through, the loader returns \<open>False\<close> whatever the files of the
  remaining entities \<open>post\<close> are, and it restores nothing of what the tables held before the
  run: the five tables stay dropped and recreated. The rows inserted earlier in the run
  were never committed, so every table is left empty.
\<close>

theorem import_csv_data_failure:
  assumes "csv_files files \<noteq> []"
    and "import_order = pre @ t # post"
    and "import_tables lib files pre (\<lambda>t. Some []) = Inr d"
    and "import_table lib files t d = Inl e"
  shows "import_csv_data lib (Some files) s =
           (False, \<lparr>db_file = Some (\<lambda>t. Some []), unclosed = Suc (unclosed s)\<rparr>)"
proof -
  have "import_tables lib files (pre @ t # post) (\<lambda>t. Some []) = Inl e"
    using assms(3,4) by (simp add: import_tables_append)
  with assms(1,2) show ?thesis
    by (simp add: import_csv_data_reached)
qed

theorem import_csv_data_failure_witness:
  "csv_files broken_files \<noteq> []
   \<and> import_order = [Providers] @ Receivers # [Food_listings, Claims]
   \<and> (\<exists>d. import_tables demo_pandas broken_files [Providers] (\<lambda>t. Some []) = Inr d
          \<and> import_table demo_pandas broken_files Receivers d = Inl ParserError)
   \<and> import_csv_data demo_pandas (Some broken_files) no_store =
         (False, \<lparr>db_file = Some (\<lambda>t. Some []), unclosed = Suc (unclosed no_store)\<rparr>)"
proof -
  have 1: "csv_files broken_files \<noteq> []"
    by code_simp
  have 2: "import_order = [Providers] @ Receivers # [Food_listings, Claims]"
    by (simp add: import_order_def)
  have "\<not> isl (import_tables demo_pandas broken_files [Providers] (\<lambda>t. Some []))"
    by code_simp
  then obtain d where 3: "import_tables demo_pandas broken_files [Providers] (\<lambda>t. Some []) = Inr d"
    by (cases "import_tables demo_pandas broken_files [Providers] (\<lambda>t. Some [])") auto
  have 4: "import_table demo_pandas broken_files Receivers d = Inl ParserError"
    by (simp add: import_table_def broken_files_def)
  from import_csv_data_failure [OF 1 2 3 4, of no_store] 1 2 3 4 show ?thesis
    by blast
qed

text \<open>
  C5 as the claim states it fails: in a run where the providers are inserted and the
  receivers file cannot be read, the providers table does not keep the two rows the run
  had inserted; it is empty.
\<close>

theorem failed_load_loses_earlier_rows:
  "(case import_table demo_pandas broken_files Providers (\<lambda>t. Some []) of
      Inl e \<Rightarrow> None | Inr d \<Rightarrow> d Providers)
     = Some [[Num 1, Text ''A'', Text ''Cafe'', Text ''1 Main St'', Text ''Pune'', Text ''X''],
             [Num 3, Text ''C'', Text ''Hotel'', Text ''3 Main St'', Text ''Goa'', Text ''Y'']]
   \<and> fst (import_csv_data demo_pandas (Some broken_files) no_store) = False
   \<and> current_db (snd (import_csv_data demo_pandas (Some broken_files) no_store)) Providers = Some []"
  by code_simp

section \<open>Connections\<close>

lemma run_query_closes: "unclosed (snd (run_query q s)) = unclosed s"
  by (simp add: run_query_def Let_def get_db_connection_def close_conn_def split: sum.splits)

lemma execute_query_closes: "unclosed (snd (execute_query q s)) = unclosed s"
  by (simp add: execute_query_def Let_def get_db_connection_def close_conn_def commit_def
        split: sum.splits prod.splits)

lemma import_csv_data_success_closes:
  assumes "fst (import_csv_data lib dir s)"
  shows "unclosed (snd (import_csv_data lib dir s)) = unclosed s"
proof (cases dir)
  case None
  then show ?thesis by (simp add: import_csv_data_def)
next
  case (Some files)
  show ?thesis
  proof (cases "csv_files files = []")
    case True
    with Some show ?thesis by (simp add: import_csv_data_def)
  next
    case False
    with Some assms show ?thesis
      by (simp add: import_csv_data_reached split: sum.splits)
  qed
qed

text \<open>
  C8 at a directory whose providers file cannot be read: the loader returns \<open>False\<close> and
  the connection it opened is not closed, while \<open>run_query\<close>, \<open>execute_query\<close> and the
  loader's own success path close theirs.
\<close>

theorem failed_import_leaves_connection_unclosed:
  "import_csv_data lib (Some [(''providers_data.csv'', Unreadable)]) s =
     (False, \<lparr>db_file = Some (\<lambda>t. Some []), unclosed = Suc (unclosed s)\<rparr>)"
proof -
  have "csv_files [(''providers_data.csv'', Unreadable)] \<noteq> []"
    by (simp add: csv_files_def is_csv_def)
  then show ?thesis
    by (simp add: import_csv_data_reached import_order_def import_table_def)
qed

section \<open>The bootstrap\<close>

lemma insert_sample_fresh:
  "insert_sample_data (\<lambda>t. Some []) =
     Inr ((\<lambda>t. Some [])
       (Providers \<mapsto> map (stored_row Providers [''provider_id'', ''name'', ''type'', ''city'', ''contact'']) sample_providers,
        Receivers \<mapsto> sample_receivers,
        Food_listings \<mapsto> sample_food_listings,
        Claims \<mapsto> sample_claims))"
  by (simp add: insert_sample_data_def sql_insert_def stored_row_def default_val_def
        append_checked_def violates_not_null_def violates_check_def col_val_def pk_values_def
        sample_providers_def sample_receivers_def sample_food_listings_def sample_claims_def)

lemma sample_fallback_fresh:
  assumes "db_file s = None \<or> db_file s = Some (\<lambda>t. Some [])"
  shows "sample_fallback False s =
     (None, \<lparr>db_file = Some ((\<lambda>t. Some [])
       (Providers \<mapsto> map (stored_row Providers [''provider_id'', ''name'', ''type'', ''city'', ''contact'']) sample_providers,
        Receivers \<mapsto> sample_receivers,
        Food_listings \<mapsto> sample_food_listings,
        Claims \<mapsto> sample_claims)), unclosed = unclosed s\<rparr>)"
proof -
  have "fold create_table_if_not_exists [Providers, Receivers, Food_listings, Claims, Audit_log]
          (current_db (get_db_connection s)) = (\<lambda>t. Some [])"
  proof
    fix t
    show "fold create_table_if_not_exists [Providers, Receivers, Food_listings, Claims, Audit_log]
          (current_db (get_db_connection s)) t = Some []"
      using assms
      by (cases t) (auto simp: create_table_if_not_exists_def current_db_def get_db_connection_def)
  qed
  then show ?thesis
    by (simp add: sample_fallback_def Let_def insert_sample_fresh commit_def close_conn_def
          get_db_connection_def)
qed

text \<open>
  Where the fallback meets no lock it leaves the sample dataset: with no input directory,
  with no CSV file in it, and after a load that failed before any of its \<open>INSERT\<close>
  statements ran.
\<close>

lemma init_database_sample_data:
  assumes "db_file s = None"
    and "dir = None \<or> (\<exists>files. dir = Some files \<and>
           (csv_files files = [] \<or>
            (\<not> fst (import_csv_data lib dir s) \<and> \<not> loader_holds_lock lib files)))"
  shows "fst (init_database lib dir s) = None
    \<and> current_db (snd (init_database lib dir s)) Providers
          = Some (map (\<lambda>r. take 3 r @ Null # drop 3 r) sample_providers)
    \<and> current_db (snd (init_database lib dir s)) Receivers = Some sample_receivers
    \<and> current_db (snd (init_database lib dir s)) Food_listings = Some sample_food_listings
    \<and> current_db (snd (init_database lib dir s)) Claims = Some sample_claims
    \<and> current_db (snd (init_database lib dir s)) Audit_log = Some []
    \<and> length sample_providers = 5 \<and> length sample_receivers = 5
    \<and> length sample_food_listings = 8 \<and> length sample_claims = 5"
proof -
  have prov: "map (stored_row Providers [''provider_id'', ''name'', ''type'', ''city'', ''contact''])
                sample_providers = map (\<lambda>r. take 3 r @ Null # drop 3 r) sample_providers"
    by (simp add: sample_providers_def stored_row_def default_val_def)
  have len: "length sample_providers = 5 \<and> length sample_receivers = 5
    \<and> length sample_food_listings = 8 \<and> length sample_claims = 5"
    by (simp add: sample_providers_def sample_receivers_def sample_food_listings_def
          sample_claims_def)
  have "\<exists>s0. init_database lib dir s = sample_fallback False s0
          \<and> (db_file s0 = None \<or> db_file s0 = Some (\<lambda>t. Some []))"
  proof (cases dir)
    case None
    with assms(1) show ?thesis by (auto simp: init_database_def)
  next
    case (Some files)
    show ?thesis
    proof (cases "csv_files files = []")
      case True
      with Some assms(1) show ?thesis by (auto simp: init_database_def)
    next
      case False
      with Some assms(2) have nok: "\<not> fst (import_csv_data lib (Some files) s)"
        and free: "\<not> loader_holds_lock lib files" by auto
      from False nok have "import_csv_data lib (Some files) s =
          (False, \<lparr>db_file = Some (\<lambda>t. Some []), unclosed = Suc (unclosed s)\<rparr>)"
        by (auto simp: import_csv_data_reached split: sum.splits)
      with Some False free assms(1) show ?thesis
        by (auto simp: init_database_def)
    qed
  qed
  then obtain s0 where s0: "init_database lib dir s = sample_fallback False s0"
    "db_file s0 = None \<or> db_file s0 = Some (\<lambda>t. Some [])" by blast
  show ?thesis
    using len by (simp add: s0(1) sample_fallback_fresh[OF s0(2)] current_db_def prov)
qed

text \<open>
  After a load that failed once an \<open>INSERT\<close> had run, the loader's connection still holds
  the write lock: the fallback raises at its first \<open>INSERT\<close>, \<open>init_database\<close> does not
  return normally, and the five tables stay empty, with two connections unclosed.
\<close>

lemma init_database_locked:
  assumes "db_file s = None"
    and "csv_files files \<noteq> []"
    and "\<not> fst (import_csv_data lib (Some files) s)"
    and "loader_holds_lock lib files"
  shows "init_database lib (Some files) s =
           (Some OperationalError,
            \<lparr>db_file = Some (\<lambda>t. Some []), unclosed = Suc (Suc (unclosed s))\<rparr>)"
proof -
  from assms(2,3) have "import_csv_data lib (Some files) s =
      (False, \<lparr>db_file = Some (\<lambda>t. Some []), unclosed = Suc (unclosed s)\<rparr>)"
    by (auto simp: import_csv_data_reached split: sum.splits)
  with assms(1,2,4) show ?thesis
    by (simp add: init_database_def sample_fallback_def get_db_connection_def current_db_def)
qed

text \<open>
  C6 at a directory whose providers file loads and whose receivers file cannot be read,
  with no store file: the failed load has inserted the providers, so its connection holds
  the write lock; \<open>init_database\<close> raises \<open>OperationalError\<close> and the store is left with five
  empty tables, not with the sample dataset.
\<close>

theorem init_database_raises_after_failed_load:
  "db_file no_store = None
   \<and> fst (import_csv_data demo_pandas (Some broken_files) no_store) = False
   \<and> loader_holds_lock demo_pandas broken_files
   \<and> fst (init_database demo_pandas (Some broken_files) no_store) = Some OperationalError
   \<and> map (current_db (snd (init_database demo_pandas (Some broken_files) no_store)))
         [Providers, Receivers, Food_listings, Claims, Audit_log]
       = [Some [], Some [], Some [], Some [], Some []]"
  by code_simp

section \<open>The audit log\<close>

lemma audit_rows_store [simp]:
  "audit_rows \<lparr>db_file = Some d, unclosed = n\<rparr> = (case d Audit_log of None \<Rightarrow> [] | Some rs \<Rightarrow> rs)"
  by (simp add: audit_rows_def current_db_def)

lemma execute_query_result:
  "execute_query q s =
     (case run_statement q (current_db s) of
        Inl e \<Rightarrow> (Inl e, \<lparr>db_file = Some (current_db s), unclosed = unclosed s\<rparr>)
      | Inr (n, d') \<Rightarrow> (Inr n, \<lparr>db_file = Some d', unclosed = unclosed s\<rparr>))"
  by (simp add: execute_query_def Let_def get_db_connection_def close_conn_def commit_def
        current_db_def split: sum.splits prod.splits option.splits)

lemma audit_rows_current: "audit_rows \<lparr>db_file = Some (current_db s), unclosed = n\<rparr> = audit_rows s"
  by (simp add: audit_rows_def current_db_def)

lemma execute_query_keeps_audit:
  assumes "(case q of Insert t cols vals \<Rightarrow> t | Update t cols vals k \<Rightarrow> t | Delete t k \<Rightarrow> t) \<noteq> Audit_log"
  shows "audit_rows (snd (execute_query q s)) = audit_rows s"
proof (cases "run_statement q (current_db s)")
  case (Inl e)
  then show ?thesis by (simp add: execute_query_result audit_rows_current del: audit_rows_store)
next
  case (Inr p)
  obtain n d' where p: "p = (n, d')" by (cases p)
  from run_statement_other[OF Inr[unfolded p] assms] have "d' Audit_log = current_db s Audit_log" .
  then show ?thesis using Inr p by (simp add: execute_query_result audit_rows_def current_db_def)
qed

lemma stored_audit_row:
  "stored_row Audit_log [''operation'', ''user'', ''details'', ''ts_utc''] [Text a, Text b, Text c, Text d]
     = [Null, Text a, Text b, Text c, Text d]"
  by (simp add: stored_row_def default_val_def)

lemma log_audit_result:
  "(fst (log_audit operation details clk s) = None \<and>
      (\<exists>k. audit_rows (snd (log_audit operation details clk s)) =
           audit_rows s @ [[Num k, Text operation, Text ''streamlit'', Text details, Text (local_now clk)]]))
   \<or> (fst (log_audit operation details clk s) \<noteq> None \<and>
        audit_rows (snd (log_audit operation details clk s)) = audit_rows s)"
proof (cases "sql_insert Audit_log [''operation'', ''user'', ''details'', ''ts_utc'']
                [Text operation, Text ''streamlit'', Text details, Text (local_now clk)] (current_db s)")
  case (Inl e)
  then show ?thesis
    by (simp add: log_audit_def execute_query_result audit_rows_current del: audit_rows_store)
next
  case (Inr d')
  from sql_insert_Inr[OF Inr] obtain rs k where
    "current_db s Audit_log = Some rs"
    "d' = (current_db s)(Audit_log \<mapsto> rs @ [[Num k, Text operation, Text ''streamlit'', Text details, Text (local_now clk)]])"
    by (auto simp: stored_audit_row)
  then show ?thesis using Inr
    by (simp add: log_audit_def execute_query_result audit_rows_def current_db_def)
qed

lemma submit_result:
  "(fst (submit clk a s) = None \<and>
      (\<exists>k. audit_rows (snd (submit clk a s)) =
           audit_rows s @ [[Num k, Text (fst (audit_of a)), Text ''streamlit'',
                            Text (snd (audit_of a)), Text (local_now clk)]]))
   \<or> (fst (submit clk a s) \<noteq> None \<and> audit_rows (snd (submit clk a s)) = audit_rows s)"
proof (cases "execute_query (statement_of clk a) s")
  case (Pair r s')
  have keep: "audit_rows s' = audit_rows s"
    using execute_query_keeps_audit[OF statement_of_table, of clk a s] Pair by simp
  show ?thesis
  proof (cases r)
    case (Inl e)
    with Pair keep show ?thesis by (simp add: submit_def)
  next
    case (Inr n)
    with Pair have "submit clk a s = log_audit (fst (audit_of a)) (snd (audit_of a)) clk s'"
      by (simp add: submit_def)
    with log_audit_result[of "fst (audit_of a)" "snd (audit_of a)" clk s'] keep
    show ?thesis by simp
  qed
qed

text \<open>
  C4, as the code has it. A submitted form, \<open>log_audit\<close> and a read query keep every audit
  row that was there, in place and unmodified, and at most append to them. The loader is
  the exception: once it is past its directory checks it drops and recreates
  \<open>audit_log\<close>, and the audit log is empty when it returns.
\<close>

theorem audit_rows_kept:
  "(\<exists>new. audit_rows (snd (submit clk a s)) = audit_rows s @ new)
   \<and> (\<exists>new. audit_rows (snd (log_audit operation details clk s)) = audit_rows s @ new)
   \<and> audit_rows (snd (run_query q s)) = audit_rows s
   \<and> (csv_files files \<noteq> [] \<longrightarrow> audit_rows (snd (import_csv_data lib (Some files) s)) = [])"
proof -
  have 1: "\<exists>new. audit_rows (snd (submit clk a s)) = audit_rows s @ new"
    using submit_result[of clk a s] by auto
  have 2: "\<exists>new. audit_rows (snd (log_audit operation details clk s)) = audit_rows s @ new"
    using log_audit_result[of operation details clk s] by auto
  have 3: "audit_rows (snd (run_query q s)) = audit_rows s"
    by (simp add: run_query_def Let_def get_db_connection_def close_conn_def audit_rows_def
          current_db_def split: sum.splits option.splits)
  have 4: "csv_files files \<noteq> [] \<longrightarrow> audit_rows (snd (import_csv_data lib (Some files) s)) = []"
  proof
    assume ne: "csv_files files \<noteq> []"
    show "audit_rows (snd (import_csv_data lib (Some files) s)) = []"
    proof (cases "import_tables lib files import_order (\<lambda>t. Some [])")
      case (Inl e)
      with ne show ?thesis by (simp add: import_csv_data_reached)
    next
      case (Inr d')
      have "d' Audit_log = Some []"
        using import_tables_other[OF Inr, of Audit_log] by (simp add: import_order_def)
      with Inr ne show ?thesis by (simp add: import_csv_data_reached)
    qed
  qed
  from 1 2 3 4 show ?thesis by blast
qed

theorem audit_rows_kept_witness:
  "csv_files demo_files \<noteq> []
   \<and> audit_rows (snd (import_csv_data demo_pandas (Some demo_files) audited_store)) = []
   \<and> (\<exists>new. audit_rows (snd (submit demo_clock (Delete_listing 1) audited_store))
              = audit_rows audited_store @ new)"
proof -
  have 1: "csv_files demo_files \<noteq> []"
    by code_simp
  from audit_rows_kept [where clk = demo_clock and a = "Delete_listing 1" and s = audited_store
      and files = demo_files and lib = demo_pandas] 1
  show ?thesis by blast
qed

text \<open>
  C4 as the claim states it fails: a store reached by a load and one submitted form has
  an audit row, and the next load deletes it.
\<close>

theorem loader_empties_audit_log:
  "audit_rows audited_store =
       [[Num 1, Text ''delete_listing'', Text ''streamlit'', Text ''food_id=3'',
         Text ''2025-01-10 15:30:00'']]
   \<and> audit_rows (snd (import_csv_data demo_pandas (Some demo_files) audited_store)) = []"
  by code_simp

text \<open>
  C9 on a host whose zone is not UTC: the form that creates a listing succeeds and appends
  one audit row, and the time in its \<open>ts_utc\<close> column is the local wall clock of
  \<open>datetime.now()\<close>, 15:30, while the UTC time of the operation is 10:00.
\<close>

theorem log_audit_local_time:
  "fst (submit demo_clock
          (Create_listing 9 ''Soup'' 4 ''2025-01-12'' (Some 1) ''Cafe'' ''Pune'' ''Soup'' ''Dinner'')
          (snd (import_csv_data demo_pandas (Some demo_files) no_store))) = None
   \<and> audit_rows (snd (submit demo_clock
          (Create_listing 9 ''Soup'' 4 ''2025-01-12'' (Some 1) ''Cafe'' ''Pune'' ''Soup'' ''Dinner'')
          (snd (import_csv_data demo_pandas (Some demo_files) no_store))))
       = [[Num 1, Text ''create_listing'', Text ''streamlit'', Text ''food_id=9'',
           Text ''2025-01-10 15:30:00'']]
   \<and> utc_now demo_clock = ''2025-01-10 10:00:00''"
  by code_simp

end
